theory Spec2Isabelle
  imports Complex_Main
begin

section \<open>JavaScript values and built-ins used by the dashboard client\<close>

text \<open>
  The client script \<^verbatim>\<open>static/js/app.js\<close> polls REST endpoints and projects the
  parsed JSON onto DOM nodes. JavaScript numbers are modelled by exact rationals (every
  finite double is one), strings by \<^typ>\<open>string\<close>; the Korean literals of the script are
  spelled as their UTF-8 bytes, as they stand in the source file. An optional JSON
  property is an \<^typ>\<open>'a option\<close>, \<open>None\<close> standing for a property that is absent.
\<close>

type_synonym number = rat

text \<open>
  An exception value. \<open>TypeError\<close> is what the engine throws on a property read of
  \<^verbatim>\<open>undefined\<close> or \<^verbatim>\<open>null\<close>; \<open>Failure m\<close> is a rejected promise of
  \<^verbatim>\<open>fetch\<close> or \<^verbatim>\<open>response.json()\<close> whose \<^verbatim>\<open>message\<close> property is \<open>m\<close>.
\<close>

datatype js_error = TypeError | Failure string

text \<open>The text of the \<^verbatim>\<open>message\<close> property; for an engine TypeError it is engine-defined.\<close>

definition TYPE_ERROR_MESSAGE :: string where
  "TYPE_ERROR_MESSAGE = ''Cannot read properties of null''"

fun error_message :: "js_error \<Rightarrow> string" where
  "error_message TypeError = TYPE_ERROR_MESSAGE"
| "error_message (Failure m) = m"

text \<open>
  What \<^verbatim>\<open>await fetch(url)\<close> followed by \<^verbatim>\<open>await response.json()\<close> yields: the
  request is rejected (network error), the body does not parse as JSON, or a parsed value.
  The script never looks at the HTTP status code.
\<close>

datatype 'a response = FetchRejected string | JsonRejected string | Json 'a

fun await_json :: "'a response \<Rightarrow> js_error + 'a" where
  "await_json (FetchRejected m) = Inl (Failure m)"
| "await_json (JsonRejected m) = Inl (Failure m)"
| "await_json (Json v) = Inr v"

text \<open>Truthiness of an optional string and the \<^verbatim>\<open>a || b\<close> idiom on strings.\<close>

fun truthy_str :: "string option \<Rightarrow> bool" where
  "truthy_str None = False"
| "truthy_str (Some s) = (s \<noteq> [])"

definition or_else :: "string option \<Rightarrow> string \<Rightarrow> string" where
  "or_else a d = (case a of None \<Rightarrow> d | Some s \<Rightarrow> if s = [] then d else s)"

definition or_opt :: "string option \<Rightarrow> string option \<Rightarrow> string option" where
  "or_opt a b = (if truthy_str a then a else b)"

text \<open>String conversion of a possibly undefined string inside a template literal.\<close>

fun str_of :: "string option \<Rightarrow> string" where
  "str_of None = ''undefined''"
| "str_of (Some s) = s"

subsection \<open>Decimal rendering\<close>

definition digit_char :: "nat \<Rightarrow> char" where
  "digit_char d = ''0123456789'' ! d"

fun digits :: "nat \<Rightarrow> string" where
  "digits n = (if n < 10 then [digit_char n] else digits (n div 10) @ [digit_char (n mod 10)])"

declare digits.simps [simp del]

text \<open>String conversion of an integer-valued number.\<close>

definition show_int :: "int \<Rightarrow> string" where
  "show_int i = (if i < 0 then ''-'' @ digits (nat (- i)) else digits (nat i))"

text \<open>
  \<^verbatim>\<open>Number.prototype.toFixed(f)\<close> after ECMA-262: with \<open>n\<close> the integer for which
  \<open>n / 10^f\<close> is closest to \<open>|x|\<close> (the larger one on a tie), the digits of \<open>n\<close> are
  padded with zeros to \<open>f + 1\<close> places and the point is put before the last \<open>f\<close>.
  (For \<open>|x| \<ge> 10^21\<close> the standard switches to exponent notation, which is not
  modelled; plant quantities are far below.)
\<close>

definition fixed_notation :: "nat \<Rightarrow> nat \<Rightarrow> string" where
  "fixed_notation f n =
     (let m = digits n;
          m = replicate (f + 1 - length m) (CHR ''0'') @ m;
          k = length m
      in if f = 0 then m else take (k - f) m @ ''.'' @ drop (k - f) m)"

definition toFixed :: "nat \<Rightarrow> number \<Rightarrow> string" where
  "toFixed f x =
     (if x < 0 then ''-'' else '''') @ fixed_notation f (nat \<lfloor>\<bar>x\<bar> * 10 ^ f + 1 / 2\<rfloor>)"

text \<open>\<^verbatim>\<open>String.prototype.toUpperCase\<close> on the ASCII letters (event types are ASCII words).\<close>

definition upper_char :: "char \<Rightarrow> char" where
  "upper_char c =
     (case map_of (zip ''abcdefghijklmnopqrstuvwxyz'' ''ABCDEFGHIJKLMNOPQRSTUVWXYZ'') c of
        None \<Rightarrow> c | Some u \<Rightarrow> u)"

definition toUpperCase :: "string \<Rightarrow> string" where
  "toUpperCase s = map upper_char s"

text \<open>\<^verbatim>\<open>Array.prototype.join\<close> on already converted elements.\<close>

fun join :: "string \<Rightarrow> string list \<Rightarrow> string" where
  "join sep [] = []"
| "join sep [x] = x"
| "join sep (x # y # ys) = x @ sep @ join sep (y # ys)"

text \<open>\<^verbatim>\<open>xs.slice(-n)\<close>: the start index is \<open>max (length xs - n) 0\<close>.\<close>

definition slice_last :: "nat \<Rightarrow> 'a list \<Rightarrow> 'a list" where
  "slice_last n xs = drop (length xs - n) xs"

subsection \<open>The script's Korean string literals\<close>

text \<open>
  Each constant is one literal of \<^verbatim>\<open>app.js\<close>, byte for byte in UTF-8; the comment gives
  its source line and an English gloss.
\<close>

definition PLANT_LABEL :: string where \<comment> \<open>line 127: Plant: \<close>
  "PLANT_LABEL =
     [CHR 0xEB, CHR 0xB0, CHR 0x9C, CHR 0xEC, CHR 0xA0, CHR 0x84, CHR 0xEC, CHR 0x86,
     CHR 0x8C] @ '': ''"

definition UPDATE_LABEL :: string where \<comment> \<open>line 128: Updated: \<close>
  "UPDATE_LABEL =
     [CHR 0xEC, CHR 0x97, CHR 0x85, CHR 0xEB, CHR 0x8D, CHR 0xB0, CHR 0xEC, CHR 0x9D,
     CHR 0xB4, CHR 0xED, CHR 0x8A, CHR 0xB8] @ '': ''"

definition NO_HOURLY_DATA :: string where \<comment> \<open>line 462: No data.\<close>
  "NO_HOURLY_DATA =
     [CHR 0xEB, CHR 0x8D, CHR 0xB0, CHR 0xEC, CHR 0x9D, CHR 0xB4, CHR 0xED, CHR 0x84,
     CHR 0xB0, CHR 0xEA, CHR 0xB0, CHR 0x80] @ '' '' @ [CHR 0xEC, CHR 0x97, CHR 0x86,
     CHR 0xEC, CHR 0x8A, CHR 0xB5, CHR 0xEB, CHR 0x8B, CHR 0x88, CHR 0xEB, CHR 0x8B,
     CHR 0xA4] @ ''.''"

definition TXT_NO_PORT :: string where \<comment> \<open>line 489: No port\<close>
  "TXT_NO_PORT =
     [CHR 0xED, CHR 0x8F, CHR 0xAC, CHR 0xED, CHR 0x8A, CHR 0xB8] @ '' '' @ [CHR 0xEC,
     CHR 0x97, CHR 0x86, CHR 0xEC, CHR 0x9D, CHR 0x8C]"

definition TXT_SERVER_STOPPED :: string where \<comment> \<open>line 494: Server stopped\<close>
  "TXT_SERVER_STOPPED =
     [CHR 0xEC, CHR 0x84, CHR 0x9C, CHR 0xEB, CHR 0xB2, CHR 0x84] @ '' '' @ [CHR 0xEC,
     CHR 0xA4, CHR 0x91, CHR 0xEC, CHR 0xA7, CHR 0x80]"

definition TXT_NOT_CONNECTED :: string where \<comment> \<open>line 499: Not connected\<close>
  "TXT_NOT_CONNECTED =
     [CHR 0xEC, CHR 0x97, CHR 0xB0, CHR 0xEA, CHR 0xB2, CHR 0xB0] @ '' '' @ [CHR 0xEC,
     CHR 0x95, CHR 0x88, CHR 0xEB, CHR 0x90, CHR 0xA8]"

definition TXT_RUNNING :: string where \<comment> \<open>line 505: Running\<close>
  "TXT_RUNNING =
     [CHR 0xEC, CHR 0x8B, CHR 0xA4, CHR 0xED, CHR 0x96, CHR 0x89] @ '' '' @ [CHR 0xEC,
     CHR 0xA4, CHR 0x91]"

definition TXT_STOPPED :: string where \<comment> \<open>line 509: Stopped\<close>
  "TXT_STOPPED =
     [CHR 0xEC, CHR 0xA4, CHR 0x91, CHR 0xEC, CHR 0xA7, CHR 0x80, CHR 0xEB, CHR 0x90,
     CHR 0xA8]"

definition TXT_INIT_FAILED :: string where \<comment> \<open>line 521: Initialisation failed\<close>
  "TXT_INIT_FAILED =
     [CHR 0xEC, CHR 0xB4, CHR 0x88, CHR 0xEA, CHR 0xB8, CHR 0xB0, CHR 0xED, CHR 0x99,
     CHR 0x94] @ '' '' @ [CHR 0xEC, CHR 0x8B, CHR 0xA4, CHR 0xED, CHR 0x8C, CHR 0xA8]"

definition TITLE_NO_PORT :: string where \<comment> \<open>line 491: The serial port is not connected.\<close>
  "TITLE_NO_PORT =
     [CHR 0xEC, CHR 0x8B, CHR 0x9C, CHR 0xEB, CHR 0xA6, CHR 0xAC, CHR 0xEC, CHR 0x96,
     CHR 0xBC] @ '' '' @ [CHR 0xED, CHR 0x8F, CHR 0xAC, CHR 0xED, CHR 0x8A, CHR 0xB8,
     CHR 0xEA, CHR 0xB0, CHR 0x80] @ '' '' @ [CHR 0xEC, CHR 0x97, CHR 0xB0, CHR 0xEA,
     CHR 0xB2, CHR 0xB0, CHR 0xEB, CHR 0x90, CHR 0x98, CHR 0xEC, CHR 0x96, CHR 0xB4] @
     '' '' @ [CHR 0xEC, CHR 0x9E, CHR 0x88, CHR 0xEC, CHR 0xA7, CHR 0x80] @ '' '' @
     [CHR 0xEC, CHR 0x95, CHR 0x8A, CHR 0xEC, CHR 0x8A, CHR 0xB5, CHR 0xEB, CHR 0x8B,
     CHR 0x88, CHR 0xEB, CHR 0x8B, CHR 0xA4] @ ''.''"

definition ALERT_PORT_PREFIX :: string where \<comment> \<open>line 492: Port connection failed: \<close>
  "ALERT_PORT_PREFIX =
     [CHR 0xED, CHR 0x8F, CHR 0xAC, CHR 0xED, CHR 0x8A, CHR 0xB8] @ '' '' @ [CHR 0xEC,
     CHR 0x97, CHR 0xB0, CHR 0xEA, CHR 0xB2, CHR 0xB0] @ '' '' @ [CHR 0xEC, CHR 0x8B,
     CHR 0xA4, CHR 0xED, CHR 0x8C, CHR 0xA8] @ '': ''"

definition ALERT_PORT_FALLBACK :: string where \<comment> \<open>line 492: The serial port cannot be found.\<close>
  "ALERT_PORT_FALLBACK =
     [CHR 0xEC, CHR 0x8B, CHR 0x9C, CHR 0xEB, CHR 0xA6, CHR 0xAC, CHR 0xEC, CHR 0x96,
     CHR 0xBC] @ '' '' @ [CHR 0xED, CHR 0x8F, CHR 0xAC, CHR 0xED, CHR 0x8A, CHR 0xB8,
     CHR 0xEB, CHR 0xA5, CHR 0xBC] @ '' '' @ [CHR 0xEC, CHR 0xB0, CHR 0xBE, CHR 0xEC,
     CHR 0x9D, CHR 0x84] @ '' '' @ [CHR 0xEC, CHR 0x88, CHR 0x98] @ '' '' @ [CHR 0xEC,
     CHR 0x97, CHR 0x86, CHR 0xEC, CHR 0x8A, CHR 0xB5, CHR 0xEB, CHR 0x8B, CHR 0x88,
     CHR 0xEB, CHR 0x8B, CHR 0xA4] @ ''.''"

definition TITLE_SERVER_STOPPED :: string where \<comment> \<open>line 496: The Modbus server has not been started.\<close>
  "TITLE_SERVER_STOPPED =
     ''Modbus '' @ [CHR 0xEC, CHR 0x84, CHR 0x9C, CHR 0xEB, CHR 0xB2, CHR 0x84,
     CHR 0xEA, CHR 0xB0, CHR 0x80] @ '' '' @ [CHR 0xEC, CHR 0x8B, CHR 0xA4, CHR 0xED,
     CHR 0x96, CHR 0x89, CHR 0xEB, CHR 0x90, CHR 0x98, CHR 0xEC, CHR 0xA7, CHR 0x80] @
     '' '' @ [CHR 0xEC, CHR 0x95, CHR 0x8A, CHR 0xEC, CHR 0x95, CHR 0x98, CHR 0xEC,
     CHR 0x8A, CHR 0xB5, CHR 0xEB, CHR 0x8B, CHR 0x88, CHR 0xEB, CHR 0x8B, CHR 0xA4] @
     ''.''"

definition ALERT_SERVER_STOPPED :: string where \<comment> \<open>line 497: The Modbus RTU server has not been started.\<close>
  "ALERT_SERVER_STOPPED =
     ''Modbus RTU '' @ [CHR 0xEC, CHR 0x84, CHR 0x9C, CHR 0xEB, CHR 0xB2, CHR 0x84,
     CHR 0xEA, CHR 0xB0, CHR 0x80] @ '' '' @ [CHR 0xEC, CHR 0x8B, CHR 0xA4, CHR 0xED,
     CHR 0x96, CHR 0x89, CHR 0xEB, CHR 0x90, CHR 0x98, CHR 0xEC, CHR 0xA7, CHR 0x80] @
     '' '' @ [CHR 0xEC, CHR 0x95, CHR 0x8A, CHR 0xEC, CHR 0x95, CHR 0x98, CHR 0xEC,
     CHR 0x8A, CHR 0xB5, CHR 0xEB, CHR 0x8B, CHR 0x88, CHR 0xEB, CHR 0x8B, CHR 0xA4] @
     ''.''"

definition MSG_NO_RTU :: string where \<comment> \<open>line 501: Cannot communicate with the RTU.\<close>
  "MSG_NO_RTU =
     ''RTU'' @ [CHR 0xEC, CHR 0x99, CHR 0x80] @ '' '' @ [CHR 0xED, CHR 0x86, CHR 0xB5,
     CHR 0xEC, CHR 0x8B, CHR 0xA0, CHR 0xED, CHR 0x95, CHR 0xA0] @ '' '' @ [CHR 0xEC,
     CHR 0x88, CHR 0x98] @ '' '' @ [CHR 0xEC, CHR 0x97, CHR 0x86, CHR 0xEC, CHR 0x8A,
     CHR 0xB5, CHR 0xEB, CHR 0x8B, CHR 0x88, CHR 0xEB, CHR 0x8B, CHR 0xA4] @ ''.''"

definition ALERT_INIT_FAILED :: string where \<comment> \<open>line 526: Modbus RTU Manager initialisation failed\<close>
  "ALERT_INIT_FAILED =
     ''Modbus RTU Manager '' @ [CHR 0xEC, CHR 0xB4, CHR 0x88, CHR 0xEA, CHR 0xB8,
     CHR 0xB0, CHR 0xED, CHR 0x99, CHR 0x94] @ '' '' @ [CHR 0xEC, CHR 0x8B, CHR 0xA4,
     CHR 0xED, CHR 0x8C, CHR 0xA8]"

definition ALERT_FETCH_ERROR :: string where \<comment> \<open>line 530: An error occurred while querying the Modbus status.\<close>
  "ALERT_FETCH_ERROR =
     ''Modbus '' @ [CHR 0xEC, CHR 0x83, CHR 0x81, CHR 0xED, CHR 0x83, CHR 0x9C] @ '' ''
     @ [CHR 0xEC, CHR 0xA1, CHR 0xB0, CHR 0xED, CHR 0x9A, CHR 0x8C] @ '' '' @ [CHR 0xEC,
     CHR 0xA4, CHR 0x91] @ '' '' @ [CHR 0xEC, CHR 0x98, CHR 0xA4, CHR 0xEB, CHR 0xA5,
     CHR 0x98, CHR 0xEA, CHR 0xB0, CHR 0x80] @ '' '' @ [CHR 0xEB, CHR 0xB0, CHR 0x9C,
     CHR 0xEC, CHR 0x83, CHR 0x9D, CHR 0xED, CHR 0x96, CHR 0x88, CHR 0xEC, CHR 0x8A,
     CHR 0xB5, CHR 0xEB, CHR 0x8B, CHR 0x88, CHR 0xEB, CHR 0x8B, CHR 0xA4] @ ''.''"

definition DETAIL_ADDRESS :: string where \<comment> \<open>line 624: address: \<close>
  "DETAIL_ADDRESS =
     [CHR 0xEC, CHR 0xA3, CHR 0xBC, CHR 0xEC, CHR 0x86, CHR 0x8C] @ '': ''"

definition DETAIL_QUANTITY :: string where \<comment> \<open>line 627: , quantity: \<close>
  "DETAIL_QUANTITY =
     '', '' @ [CHR 0xEC, CHR 0x88, CHR 0x98, CHR 0xEB, CHR 0x9F, CHR 0x89] @ '': ''"

definition DETAIL_VALUES :: string where \<comment> \<open>line 630: , values: [\<close>
  "DETAIL_VALUES =
     '', '' @ [CHR 0xEA, CHR 0xB0, CHR 0x92] @ '': [''"

definition DETAIL_ERROR :: string where \<comment> \<open>line 633: , error: \<close>
  "DETAIL_ERROR =
     '', '' @ [CHR 0xEC, CHR 0x98, CHR 0xA4, CHR 0xEB, CHR 0xA5, CHR 0x98] @ '': ''"

definition NO_LOGS :: string where \<comment> \<open>line 647: There is no communication log.\<close>
  "NO_LOGS =
     [CHR 0xED, CHR 0x86, CHR 0xB5, CHR 0xEC, CHR 0x8B, CHR 0xA0] @ '' '' @ [CHR 0xEB,
     CHR 0xA1, CHR 0x9C, CHR 0xEA, CHR 0xB7, CHR 0xB8, CHR 0xEA, CHR 0xB0, CHR 0x80] @
     '' '' @ [CHR 0xEC, CHR 0x97, CHR 0x86, CHR 0xEC, CHR 0x8A, CHR 0xB5, CHR 0xEB,
     CHR 0x8B, CHR 0x88, CHR 0xEB, CHR 0x8B, CHR 0xA4] @ ''.''"

definition ERR_CONTROL :: string where \<comment> \<open>line 248: Control error: \<close>
  "ERR_CONTROL =
     [CHR 0xEC, CHR 0xA0, CHR 0x9C, CHR 0xEC, CHR 0x96, CHR 0xB4] @ '' '' @ [CHR 0xEC,
     CHR 0x98, CHR 0xA4, CHR 0xEB, CHR 0xA5, CHR 0x98] @ '': ''"

definition ERR_CONTROL_MODE :: string where \<comment> \<open>line 292: Control mode setting error: \<close>
  "ERR_CONTROL_MODE =
     [CHR 0xEC, CHR 0xA0, CHR 0x9C, CHR 0xEC, CHR 0x96, CHR 0xB4] @ '' '' @ [CHR 0xEB,
     CHR 0xAA, CHR 0xA8, CHR 0xEB, CHR 0x93, CHR 0x9C] @ '' '' @ [CHR 0xEC, CHR 0x84,
     CHR 0xA4, CHR 0xEC, CHR 0xA0, CHR 0x95] @ '' '' @ [CHR 0xEC, CHR 0x98, CHR 0xA4,
     CHR 0xEB, CHR 0xA5, CHR 0x98] @ '': ''"

definition ERR_P_CONTROL :: string where \<comment> \<open>line 340: P control setting error: \<close>
  "ERR_P_CONTROL =
     ''P '' @ [CHR 0xEC, CHR 0xA0, CHR 0x9C, CHR 0xEC, CHR 0x96, CHR 0xB4] @ '' '' @
     [CHR 0xEC, CHR 0x84, CHR 0xA4, CHR 0xEC, CHR 0xA0, CHR 0x95] @ '' '' @ [CHR 0xEC,
     CHR 0x98, CHR 0xA4, CHR 0xEB, CHR 0xA5, CHR 0x98] @ '': ''"

definition ERR_IRRADIANCE :: string where \<comment> \<open>line 388: Irradiance setting error: \<close>
  "ERR_IRRADIANCE =
     [CHR 0xEC, CHR 0x9D, CHR 0xBC, CHR 0xEC, CHR 0x82, CHR 0xAC, CHR 0xEB, CHR 0x9F,
     CHR 0x89] @ '' '' @ [CHR 0xEC, CHR 0x84, CHR 0xA4, CHR 0xEC, CHR 0xA0, CHR 0x95] @
     '' '' @ [CHR 0xEC, CHR 0x98, CHR 0xA4, CHR 0xEB, CHR 0xA5, CHR 0x98] @ '': ''"

definition ERR_TEMPERATURE :: string where \<comment> \<open>line 412: Temperature setting error: \<close>
  "ERR_TEMPERATURE =
     [CHR 0xEC, CHR 0x98, CHR 0xA8, CHR 0xEB, CHR 0x8F, CHR 0x84] @ '' '' @ [CHR 0xEC,
     CHR 0x84, CHR 0xA4, CHR 0xEC, CHR 0xA0, CHR 0x95] @ '' '' @ [CHR 0xEC, CHR 0x98,
     CHR 0xA4, CHR 0xEB, CHR 0xA5, CHR 0x98] @ '': ''"

definition SLAVE_WORD :: string where \<comment> \<open>line 639: Slave \<close>
  "SLAVE_WORD =
     [CHR 0xEC, CHR 0x8A, CHR 0xAC, CHR 0xEB, CHR 0xA0, CHR 0x88, CHR 0xEC, CHR 0x9D,
     CHR 0xB4, CHR 0xEB, CHR 0xB8, CHR 0x8C] @ '' ''"

section \<open>Status poller: \<^verbatim>\<open>updateStatus\<close>, \<^verbatim>\<open>updateUI\<close>, the inverter cards\<close>

subsection \<open>The payload of \<^verbatim>\<open>GET /api/status\<close>\<close>

text \<open>
  The top-level properties and those of \<^verbatim>\<open>total_power\<close> are optional in the model, so
  that a body which parses but is not a snapshot (an error object, say) is an input too.
  The elements of the two arrays are taken as complete objects.
\<close>

record total_power_t =
  total_active_power_kw :: "number option"
  utilization_percent :: "number option"
  total_reactive_power_kvar :: "number option"

record inverter_monitoring =
  active_power :: number
  output_voltage :: number
  output_current :: number
  power_factor :: number
  efficiency :: number

record inverter_state =
  inverter_id :: string \<comment> \<open>\<^verbatim>\<open>id\<close>\<close>
  is_on :: bool
  monitoring :: inverter_monitoring

record pv_monitoring_t =
  power_generation :: number
  voltage :: number
  current :: number

record pv_state =
  control_mode :: string
  p_control_percent :: number
  pv_monitoring :: pv_monitoring_t \<comment> \<open>\<^verbatim>\<open>monitoring\<close>\<close>

record plant_snapshot =
  plant_id :: "string option"
  total_power :: "total_power_t option"
  total_capacity_mva :: "number option"
  inverters :: "inverter_state list option"
  pv_generators :: "pv_state list option"

subsection \<open>The rendered state\<close>

text \<open>One inverter card: the interpolated slots of the template of \<^verbatim>\<open>createInverterCard\<close>.\<close>

record inverter_card =
  card_class :: string
  card_title :: string
  badge_class :: string
  badge_text :: string
  pv_power_text :: string
  pv_voltage_text :: string
  pv_current_text :: string
  active_power_text :: string
  output_voltage_text :: string
  output_current_text :: string
  power_factor_text :: string
  efficiency_text :: string
  card_index :: nat
  mppt_selected :: bool
  p_control_selected :: bool
  p_control_value :: number

text \<open>The DOM nodes written by the Status poller.\<close>

record status_dom =
  plant_id_text :: string
  update_time_text :: string
  total_power_text :: string
  utilization_text :: string
  reactive_power_text :: string
  rated_capacity_text :: string
  inverters_grid :: "inverter_card list"

subsection \<open>Rendering\<close>

definition on_off :: "bool \<Rightarrow> string" where
  "on_off b = (if b then ''on'' else ''off'')"

text \<open>
  The card \<^verbatim>\<open>createInverterCard\<close> builds from an inverter, its PV generator and the
  index: every slot of the template, with the precision of each \<^verbatim>\<open>toFixed\<close> call.
\<close>

definition card_template :: "inverter_state \<Rightarrow> pv_state \<Rightarrow> nat \<Rightarrow> inverter_card" where
  "card_template inverter pvGen index =
     (let mon = monitoring inverter; pvMonitoring = pv_monitoring pvGen in
      \<lparr> card_class = ''inverter-card '' @ on_off (is_on inverter),
        card_title = inverter_id inverter,
        badge_class = ''status-badge '' @ on_off (is_on inverter),
        badge_text = (if is_on inverter then ''ON'' else ''OFF''),
        pv_power_text = toFixed 2 (power_generation pvMonitoring) @ '' kW'',
        pv_voltage_text = toFixed 1 (voltage pvMonitoring) @ '' V'',
        pv_current_text = toFixed 2 (current pvMonitoring) @ '' A'',
        active_power_text = toFixed 2 (active_power mon) @ '' kW'',
        output_voltage_text = toFixed 1 (output_voltage mon) @ '' V'',
        output_current_text = toFixed 2 (output_current mon) @ '' A'',
        power_factor_text = toFixed 3 (power_factor mon),
        efficiency_text = toFixed 1 (efficiency mon) @ ''%'',
        card_index = index,
        mppt_selected = (control_mode pvGen = ''MPPT''),
        p_control_selected = (control_mode pvGen = ''P_CONTROL''),
        p_control_value = p_control_percent pvGen \<rparr>)"

text \<open>
  \<^verbatim>\<open>createInverterCard(inverter, pvGen, index)\<close>. With \<^verbatim>\<open>pvGen\<close> undefined the read
  \<^verbatim>\<open>pvGen.monitoring\<close> throws before the template is filled.
\<close>

definition createInverterCard ::
  "inverter_state \<Rightarrow> pv_state option \<Rightarrow> nat \<Rightarrow> js_error + inverter_card" where
  "createInverterCard inverter pvGen index =
     (case pvGen of
        None \<Rightarrow> Inl TypeError
      | Some pv \<Rightarrow> Inr (card_template inverter pv index))"

text \<open>
  \<^verbatim>\<open>pvGenerators[index]\<close>: reading an index of an undefined array throws, reading past
  the end of an array gives \<^verbatim>\<open>undefined\<close>.
\<close>

definition pv_at :: "pv_state list option \<Rightarrow> nat \<Rightarrow> js_error + pv_state option" where
  "pv_at pvGenerators index =
     (case pvGenerators of
        None \<Rightarrow> Inl TypeError
      | Some pvs \<Rightarrow> Inr (if index < length pvs then Some (pvs ! index) else None))"

text \<open>
  The body of \<^verbatim>\<open>inverters.forEach((inverter, index) => ...)\<close>: the cards appended so
  far stay in the grid when an iteration throws.
\<close>

fun forEach_inverter ::
  "pv_state list option \<Rightarrow> nat \<Rightarrow> inverter_state list \<Rightarrow> inverter_card list
     \<Rightarrow> inverter_card list \<times> js_error option" where
  "forEach_inverter pvGenerators index [] grid = (grid, None)"
| "forEach_inverter pvGenerators index (inverter # rest) grid =
     (case pv_at pvGenerators index of
        Inl e \<Rightarrow> (grid, Some e)
      | Inr pvGen \<Rightarrow>
          (case createInverterCard inverter pvGen index of
             Inl e \<Rightarrow> (grid, Some e)
           | Inr new_card \<Rightarrow>
               forEach_inverter pvGenerators (Suc index) rest (grid @ [new_card])))"

text \<open>
  \<^verbatim>\<open>updateInverterCards(inverters, pvGenerators)\<close>: the grid is emptied first, then
  filled card by card.
\<close>

definition updateInverterCards ::
  "inverter_state list option \<Rightarrow> pv_state list option \<Rightarrow> status_dom
     \<Rightarrow> status_dom \<times> js_error option" where
  "updateInverterCards invs pvGenerators ui =
     (let ui0 = ui\<lparr>inverters_grid := []\<rparr> in
      case invs of
        None \<Rightarrow> (ui0, Some TypeError)
      | Some inverter_list \<Rightarrow>
          (let (grid, e) = forEach_inverter pvGenerators 0 inverter_list [] in
           (ui0\<lparr>inverters_grid := grid\<rparr>, e)))"

text \<open>
  \<^verbatim>\<open>updateUI(data)\<close>, statement by statement; \<open>now\<close> is the text of
  \<^verbatim>\<open>new Date().toLocaleTimeString()\<close>. A \<^verbatim>\<open>toFixed\<close> on a missing number throws and
  leaves the writes made before it in place.
\<close>

definition updateUI :: "string \<Rightarrow> plant_snapshot \<Rightarrow> status_dom \<Rightarrow> status_dom \<times> js_error option" where
  "updateUI now d ui =
     (let ui1 = ui\<lparr>plant_id_text := PLANT_LABEL @ str_of (plant_id d)\<rparr>;
          ui2 = ui1\<lparr>update_time_text := UPDATE_LABEL @ now\<rparr>
      in case total_power d of
           None \<Rightarrow> (ui2, Some TypeError)
         | Some totalPower \<Rightarrow>
        (case total_active_power_kw totalPower of
           None \<Rightarrow> (ui2, Some TypeError)
         | Some p \<Rightarrow>
        (let ui3 = ui2\<lparr>total_power_text := toFixed 2 p\<rparr> in
         case utilization_percent totalPower of
           None \<Rightarrow> (ui3, Some TypeError)
         | Some u \<Rightarrow>
        (let ui4 = ui3\<lparr>utilization_text := toFixed 2 u\<rparr> in
         case total_reactive_power_kvar totalPower of
           None \<Rightarrow> (ui4, Some TypeError)
         | Some q \<Rightarrow>
        (let ui5 = ui4\<lparr>reactive_power_text := toFixed 2 q\<rparr> in
         case total_capacity_mva d of
           None \<Rightarrow> (ui5, Some TypeError)
         | Some c \<Rightarrow>
        (let ui6 = ui5\<lparr>rated_capacity_text := toFixed 2 c\<rparr> in
         updateInverterCards (inverters d) (pv_generators d) ui6))))))"

text \<open>
  Whether the five summary numbers of a body are all there, so that the render reaches
  the inverter cards.
\<close>

definition summary_complete :: "plant_snapshot \<Rightarrow> bool" where
  "summary_complete d =
     ((case total_power d of
         None \<Rightarrow> False
       | Some totalPower \<Rightarrow>
           total_active_power_kw totalPower \<noteq> None \<and> utilization_percent totalPower \<noteq> None \<and>
           total_reactive_power_kvar totalPower \<noteq> None) \<and>
      total_capacity_mva d \<noteq> None)"

text \<open>
  \<^verbatim>\<open>updateStatus()\<close>: one poll. The body parses to an object or to \<^verbatim>\<open>null\<close> (\<open>None\<close>);
  with \<^verbatim>\<open>null\<close> the first statement of \<^verbatim>\<open>updateUI\<close> throws at \<^verbatim>\<open>data.plant_id\<close>,
  before any write. (A body that parses to a number, a string or a boolean reads every
  property as \<^verbatim>\<open>undefined\<close>, like the object with no properties.) Every exception of the \<^verbatim>\<open>try\<close> block is caught and passed to
  \<^verbatim>\<open>console.error\<close>; the result is the DOM after the poll and what was logged.
\<close>

definition updateStatus ::
  "string \<Rightarrow> plant_snapshot option response \<Rightarrow> status_dom \<Rightarrow> status_dom \<times> js_error option" where
  "updateStatus now resp ui =
     (case await_json resp of
        Inl e \<Rightarrow> (ui, Some e)
      | Inr None \<Rightarrow> (ui, Some TypeError)
      | Inr (Some data) \<Rightarrow> updateUI now data ui)"

section \<open>Command dispatcher\<close>

text \<open>
  The eight handlers (\<^verbatim>\<open>controlInverter\<close> \<open>\<dots>\<close> \<^verbatim>\<open>setTemperature\<close>) share one shape:
  an optional read of an input element, the \<^verbatim>\<open>POST\<close>, \<^verbatim>\<open>response.json()\<close>, the branch
  on \<^verbatim>\<open>result.success\<close>, all inside one \<^verbatim>\<open>try\<close> whose \<^verbatim>\<open>catch\<close> reports
  \<^verbatim>\<open>error.message\<close> behind a handler-specific prefix. The request that is sent (URL
  and body) is not part of the model; the environment answers with a
  \<^typ>\<open>'a response\<close>.
\<close>

record command_result =
  success :: bool
  message :: string

text \<open>What a handler does to the outside: a console line or a call of \<^verbatim>\<open>updateStatus()\<close>.\<close>

datatype effect = ConsoleLog string | CallUpdateStatus

text \<open>\<^verbatim>\<open>showMessage(message, type)\<close> writes one console line.\<close>

definition showMessage :: "string \<Rightarrow> string \<Rightarrow> effect list" where
  "showMessage msg kind = [ConsoleLog (''['' @ toUpperCase kind @ ''] '' @ msg)]"

text \<open>The statements after \<^verbatim>\<open>const result = await response.json()\<close>.\<close>

definition on_result :: "command_result \<Rightarrow> effect list" where
  "on_result result =
     (if success result
      then showMessage (message result) ''success'' @ [CallUpdateStatus]
      else showMessage (message result) ''error'')"

text \<open>
  \<^verbatim>\<open>try { ... } catch (error) { showMessage(prefix + error.message, 'error') }\<close>, the
  whole body of a handler. The second component is the exception that leaves the handler.
\<close>

definition try_catch ::
  "string \<Rightarrow> js_error + command_result \<Rightarrow> effect list \<times> js_error option" where
  "try_catch prefix r =
     (case r of
        Inl error \<Rightarrow> (showMessage (prefix @ error_message error) ''error'', None)
      | Inr result \<Rightarrow> (on_result result, None))"

text \<open>
  \<^verbatim>\<open>document.getElementById(id).value\<close>: \<open>None\<close> is a missing element, whose
  \<^verbatim>\<open>.value\<close> throws; the request is sent only after the read.
\<close>

definition after_read ::
  "string option \<Rightarrow> command_result response \<Rightarrow> js_error + command_result" where
  "after_read element resp =
     (case element of None \<Rightarrow> Inl TypeError | Some v \<Rightarrow> await_json resp)"

definition controlInverter ::
  "nat \<Rightarrow> string \<Rightarrow> command_result response \<Rightarrow> effect list \<times> js_error option" where
  "controlInverter index action resp = try_catch ERR_CONTROL (await_json resp)"

definition controlAllInverters ::
  "string \<Rightarrow> command_result response \<Rightarrow> effect list \<times> js_error option" where
  "controlAllInverters action resp = try_catch ERR_CONTROL (await_json resp)"

definition setControlMode ::
  "nat \<Rightarrow> string option \<Rightarrow> command_result response \<Rightarrow> effect list \<times> js_error option" where
  "setControlMode index element resp = try_catch ERR_CONTROL_MODE (after_read element resp)"

definition setControlModeAll ::
  "string option \<Rightarrow> command_result response \<Rightarrow> effect list \<times> js_error option" where
  "setControlModeAll element resp = try_catch ERR_CONTROL_MODE (after_read element resp)"

definition setPControl ::
  "nat \<Rightarrow> string option \<Rightarrow> command_result response \<Rightarrow> effect list \<times> js_error option" where
  "setPControl index element resp = try_catch ERR_P_CONTROL (after_read element resp)"

definition setPControlAll ::
  "string option \<Rightarrow> command_result response \<Rightarrow> effect list \<times> js_error option" where
  "setPControlAll element resp = try_catch ERR_P_CONTROL (after_read element resp)"

definition setIrradiance ::
  "string option \<Rightarrow> command_result response \<Rightarrow> effect list \<times> js_error option" where
  "setIrradiance element resp = try_catch ERR_IRRADIANCE (after_read element resp)"

definition setTemperature ::
  "string option \<Rightarrow> command_result response \<Rightarrow> effect list \<times> js_error option" where
  "setTemperature element resp = try_catch ERR_TEMPERATURE (after_read element resp)"

text \<open>The eight commands with their arguments, to speak about all handlers at once.\<close>

datatype command =
    ControlInverter nat string
  | ControlAllInverters string
  | SetControlMode nat "string option"
  | SetControlModeAll "string option"
  | SetPControl nat "string option"
  | SetPControlAll "string option"
  | SetIrradiance "string option"
  | SetTemperature "string option"

fun dispatch :: "command \<Rightarrow> command_result response \<Rightarrow> effect list \<times> js_error option" where
  "dispatch (ControlInverter index action) resp = controlInverter index action resp"
| "dispatch (ControlAllInverters action) resp = controlAllInverters action resp"
| "dispatch (SetControlMode index element) resp = setControlMode index element resp"
| "dispatch (SetControlModeAll element) resp = setControlModeAll element resp"
| "dispatch (SetPControl index element) resp = setPControl index element resp"
| "dispatch (SetPControlAll element) resp = setPControlAll element resp"
| "dispatch (SetIrradiance element) resp = setIrradiance element resp"
| "dispatch (SetTemperature element) resp = setTemperature element resp"

text \<open>The prefix of the handler's \<^verbatim>\<open>catch\<close> message.\<close>

fun catch_prefix :: "command \<Rightarrow> string" where
  "catch_prefix (ControlInverter index action) = ERR_CONTROL"
| "catch_prefix (ControlAllInverters action) = ERR_CONTROL"
| "catch_prefix (SetControlMode index element) = ERR_CONTROL_MODE"
| "catch_prefix (SetControlModeAll element) = ERR_CONTROL_MODE"
| "catch_prefix (SetPControl index element) = ERR_P_CONTROL"
| "catch_prefix (SetPControlAll element) = ERR_P_CONTROL"
| "catch_prefix (SetIrradiance element) = ERR_IRRADIANCE"
| "catch_prefix (SetTemperature element) = ERR_TEMPERATURE"

text \<open>Whether the input element a command reads exists, so that the request is sent.\<close>

fun request_sent :: "command \<Rightarrow> bool" where
  "request_sent (ControlInverter index action) = True"
| "request_sent (ControlAllInverters action) = True"
| "request_sent (SetControlMode index element) = (element \<noteq> None)"
| "request_sent (SetControlModeAll element) = (element \<noteq> None)"
| "request_sent (SetPControl index element) = (element \<noteq> None)"
| "request_sent (SetPControlAll element) = (element \<noteq> None)"
| "request_sent (SetIrradiance element) = (element \<noteq> None)"
| "request_sent (SetTemperature element) = (element \<noteq> None)"

section \<open>Chart and history poller\<close>

record time_series_point =
  timestamp :: number
  power_kw :: number

record timeseries_body =
  series_data :: "time_series_point list option" \<comment> \<open>\<^verbatim>\<open>data\<close>\<close>

text \<open>
  The Chart.js instance as far as the script touches it: the labels, the data of the first
  data set, and the modes passed to \<^verbatim>\<open>update\<close> so far.
\<close>

record chart =
  chart_labels :: "string list"
  chart_data :: "number list"
  chart_updates :: "string list"

text \<open>
  \<^verbatim>\<open>updateChart()\<close>. The parameter is \<^verbatim>\<open>Date.prototype.toLocaleTimeString\<close> for the
  locale \<^verbatim>\<open>ko-KR\<close>, as a function of the epoch milliseconds given to \<^verbatim>\<open>new Date\<close>.
\<close>

definition updateChart ::
  "(number \<Rightarrow> string) \<Rightarrow> timeseries_body response \<Rightarrow> chart \<Rightarrow> chart \<times> js_error option" where
  "updateChart toLocaleTimeString resp powerChart =
     (case await_json resp of
        Inl e \<Rightarrow> (powerChart, Some e)
      | Inr result \<Rightarrow>
          (case series_data result of
             None \<Rightarrow> (powerChart, None)
           | Some points \<Rightarrow>
               if length points > 0
               then (powerChart
                      \<lparr> chart_labels := map (\<lambda>item. toLocaleTimeString (timestamp item * 1000)) points,
                        chart_data := map power_kw points,
                        chart_updates := chart_updates powerChart @ [''none''] \<rparr>, None)
               else (powerChart, None)))"

record hourly_record =
  hour :: string
  accumulated_kwh :: number

record hourly_body =
  hourly_data :: "hourly_record list option"

record hourly_item =
  item_label :: string
  item_value :: string
  item_unit :: string

text \<open>
  The content of a list pane: the children appended to it, or the text of the placeholder
  written through \<^verbatim>\<open>innerHTML\<close>.
\<close>

datatype 'a pane = Items "'a list" | Placeholder string

definition hourly_row :: "hourly_record \<Rightarrow> hourly_item" where
  "hourly_row item =
     \<lparr> item_label = hour item, item_value = toFixed 2 (accumulated_kwh item),
       item_unit = ''kWh'' \<rparr>"

text \<open>\<^verbatim>\<open>updateHourlyData()\<close>.\<close>

definition updateHourlyData ::
  "hourly_body response \<Rightarrow> hourly_item pane \<Rightarrow> hourly_item pane \<times> js_error option" where
  "updateHourlyData resp hourlyList =
     (case await_json resp of
        Inl e \<Rightarrow> (hourlyList, Some e)
      | Inr result \<Rightarrow>
          (case hourly_data result of
             None \<Rightarrow> (Placeholder NO_HOURLY_DATA, None)
           | Some entries \<Rightarrow>
               if length entries > 0
               then (Items (map hourly_row (slice_last 24 entries)), None)
               else (Placeholder NO_HOURLY_DATA, None)))"

section \<open>Modbus health poller and the alert banner\<close>

subsection \<open>The alert banner\<close>

text \<open>
  An element made by \<^verbatim>\<open>document.createElement\<close> has an identity (a serial number) and,
  for a banner, the message interpolated into its \<^verbatim>\<open>innerHTML\<close>. The children of the
  \<^verbatim>\<open>.modbus-section\<close> container are banners and the nodes of the page markup.
\<close>

datatype element = Element (element_serial: nat) (element_message: string)

datatype node = AlertNode element | PageNode string

text \<open>
  The module-level slot \<^verbatim>\<open>modbusAlertElement\<close>, the children of the container the
  query \<^verbatim>\<open>.modbus-section\<close> finds (\<open>None\<close> when the page has none), and the number of
  elements created so far.
\<close>

record alert_state =
  modbusAlertElement :: "element option"
  modbus_section :: "node list option"
  created :: nat

text \<open>\<^verbatim>\<open>el.remove()\<close>: the element leaves its parent, if it has one.\<close>

definition remove_element :: "element \<Rightarrow> node list option \<Rightarrow> node list option" where
  "remove_element el section = map_option (filter (\<lambda>n. n \<noteq> AlertNode el)) section"

text \<open>\<^verbatim>\<open>showModbusAlert(message)\<close>.\<close>

definition showModbusAlert :: "string \<Rightarrow> 'a alert_state_scheme \<Rightarrow> 'a alert_state_scheme" where
  "showModbusAlert msg s =
     (let s1 = (case modbusAlertElement s of
                  Some old \<Rightarrow> s\<lparr>modbus_section := remove_element old (modbus_section s)\<rparr>
                | None \<Rightarrow> s);
          el = Element (created s1) msg;
          s2 = s1\<lparr>modbusAlertElement := Some el, created := Suc (created s1)\<rparr>
      in case modbus_section s2 of
           Some children \<Rightarrow> s2\<lparr>modbus_section := Some (AlertNode el # children)\<rparr>
         | None \<Rightarrow> s2)"

text \<open>\<^verbatim>\<open>hideModbusAlert()\<close>.\<close>

definition hideModbusAlert :: "'a alert_state_scheme \<Rightarrow> 'a alert_state_scheme" where
  "hideModbusAlert s =
     (case modbusAlertElement s of
        Some old \<Rightarrow>
          s\<lparr>modbus_section := remove_element old (modbus_section s), modbusAlertElement := None\<rparr>
      | None \<Rightarrow> s)"

text \<open>The banners in the document, first child first, and their messages.\<close>

fun banner_of :: "node \<Rightarrow> element list" where
  "banner_of (AlertNode el) = [el]"
| "banner_of (PageNode name) = []"

definition banners :: "'a alert_state_scheme \<Rightarrow> element list" where
  "banners s = (case modbus_section s of None \<Rightarrow> [] | Some children \<Rightarrow> concat (map banner_of children))"

definition banner_messages :: "'a alert_state_scheme \<Rightarrow> string list" where
  "banner_messages s = map element_message (banners s)"

text \<open>
  The state when the script is loaded: the slot is \<^verbatim>\<open>null\<close> and the container, if
  the page has one, holds only nodes of the markup.
\<close>

definition initial_alert :: "string list option \<Rightarrow> alert_state" where
  "initial_alert markup =
     \<lparr> modbusAlertElement = None, modbus_section = map_option (map PageNode) markup,
       created = 0 \<rparr>"

text \<open>A sequence of calls of the two operations.\<close>

datatype alert_op = Show string | Hide

fun alert_step :: "alert_op \<Rightarrow> 'a alert_state_scheme \<Rightarrow> 'a alert_state_scheme" where
  "alert_step (Show msg) s = showModbusAlert msg s"
| "alert_step Hide s = hideModbusAlert s"

fun alert_run :: "alert_op list \<Rightarrow> 'a alert_state_scheme \<Rightarrow> 'a alert_state_scheme" where
  "alert_run [] s = s"
| "alert_run (op # ops) s = alert_run ops (alert_step op s)"

subsection \<open>The payload of \<^verbatim>\<open>GET /api/modbus/status\<close>\<close>

record slave_stat =
  total_requests :: "nat option"
  total_responses :: "nat option"
  read_requests :: "nat option"
  write_requests :: "nat option"
  error_count :: "nat option"
  last_request_time :: "number option"

record modbus_status =
  port :: "string option"
  baudrate :: "nat option"
  num_slaves :: "nat option"
  is_running :: bool
  communication_stats :: "(string \<times> slave_stat) list option"

record modbus_health =
  available :: bool
  actually_connected :: bool
  port_available :: bool
  server_running :: bool
  status :: "modbus_status option"
  port_error :: "string option"
  warning :: "string option"
  error_detail :: "string option"
  health_message :: "string option" \<comment> \<open>\<^verbatim>\<open>message\<close>\<close>

subsection \<open>The rendered state\<close>

record slave_card =
  slave_key :: string
  requests_text :: string
  responses_text :: string
  reads_text :: string
  writes_text :: string
  errors_text :: string
  last_request_text :: string

record modbus_dom = alert_state +
  status_text :: string
  status_class :: string
  status_title :: string
  port_text :: string
  baudrate_text :: string
  slaves_text :: string
  slaves_grid :: "slave_card list"

subsection \<open>Rendering\<close>

text \<open>\<^verbatim>\<open>n || 0\<close> and \<^verbatim>\<open>n || '-'\<close> on an optional count, as text.\<close>

definition count_or_zero :: "nat option \<Rightarrow> string" where
  "count_or_zero n = (case n of None \<Rightarrow> ''0'' | Some k \<Rightarrow> digits k)"

definition count_or_dash :: "nat option \<Rightarrow> string" where
  "count_or_dash n = (case n of None \<Rightarrow> ''-'' | Some k \<Rightarrow> if k = 0 then ''-'' else digits k)"

text \<open>One card of \<^verbatim>\<open>updateSlaveStats\<close>; entries come in the order of \<^verbatim>\<open>Object.entries\<close>.\<close>

definition slave_stat_card :: "(number \<Rightarrow> string) \<Rightarrow> string \<times> slave_stat \<Rightarrow> slave_card" where
  "slave_stat_card toLocaleTimeString entry =
     (let stat = snd entry in
      \<lparr> slave_key = fst entry,
        requests_text = count_or_zero (total_requests stat),
        responses_text = count_or_zero (total_responses stat),
        reads_text = count_or_zero (read_requests stat),
        writes_text = count_or_zero (write_requests stat),
        errors_text = count_or_zero (error_count stat),
        last_request_text =
          (case last_request_time stat of
             None \<Rightarrow> ''-''
           | Some t \<Rightarrow> if t = 0 then ''-'' else toLocaleTimeString t) \<rparr>)"

definition updateSlaveStats ::
  "(number \<Rightarrow> string) \<Rightarrow> (string \<times> slave_stat) list option \<Rightarrow> modbus_dom \<Rightarrow> modbus_dom" where
  "updateSlaveStats toLocaleTimeString stats page =
     page\<lparr>slaves_grid :=
            map (slave_stat_card toLocaleTimeString) (case stats of None \<Rightarrow> [] | Some kvs \<Rightarrow> kvs)\<rparr>"

text \<open>The writes of the text and the class of the status indicator.\<close>

definition set_indicator :: "string \<Rightarrow> string \<Rightarrow> modbus_dom \<Rightarrow> modbus_dom" where
  "set_indicator txt cls page = page\<lparr>status_text := txt, status_class := cls\<rparr>"

text \<open>
  \<^verbatim>\<open>updateModbusStatus()\<close>, branch by branch in the order of the source. A payload that
  is available but has no \<^verbatim>\<open>status\<close> object throws at \<^verbatim>\<open>status.port\<close>, before any
  write, and ends in the \<^verbatim>\<open>catch\<close> like a failed fetch. The second component is what
  \<^verbatim>\<open>console.error\<close> received.
\<close>

definition updateModbusStatus ::
  "(number \<Rightarrow> string) \<Rightarrow> modbus_health response \<Rightarrow> modbus_dom \<Rightarrow> modbus_dom \<times> js_error option" where
  "updateModbusStatus toLocaleTimeString resp page =
     (case await_json resp of
        Inl e \<Rightarrow> (showModbusAlert ALERT_FETCH_ERROR page, Some e)
      | Inr data \<Rightarrow>
          if available data then
            (case status data of
               None \<Rightarrow> (showModbusAlert ALERT_FETCH_ERROR page, Some TypeError)
             | Some st \<Rightarrow>
                 (let p1 = page\<lparr> port_text := or_else (port st) ''-'',
                                 baudrate_text := count_or_dash (baudrate st),
                                 slaves_text := count_or_zero (num_slaves st) \<rparr>;
                      p2 =
                        (if \<not> actually_connected data then
                           (if \<not> port_available data then
                              showModbusAlert
                                (ALERT_PORT_PREFIX @ or_else (port_error data) ALERT_PORT_FALLBACK)
                                ((set_indicator TXT_NO_PORT ''status-indicator error'' p1)
                                   \<lparr>status_title := or_else (port_error data) TITLE_NO_PORT\<rparr>)
                            else if \<not> server_running data then
                              showModbusAlert ALERT_SERVER_STOPPED
                                ((set_indicator TXT_SERVER_STOPPED ''status-indicator stopped'' p1)
                                   \<lparr>status_title := TITLE_SERVER_STOPPED\<rparr>)
                            else
                              showModbusAlert (or_else (warning data) MSG_NO_RTU)
                                ((set_indicator TXT_NOT_CONNECTED ''status-indicator error'' p1)
                                   \<lparr>status_title := or_else (warning data) MSG_NO_RTU\<rparr>))
                         else if is_running st \<and> port_available data then
                           hideModbusAlert (set_indicator TXT_RUNNING ''status-indicator running'' p1)
                         else
                           hideModbusAlert (set_indicator TXT_STOPPED ''status-indicator stopped'' p1))
                  in (updateSlaveStats toLocaleTimeString (communication_stats st) p2, None)))
          else
            (let p1 = page\<lparr> port_text := ''-'', baudrate_text := ''-'', slaves_text := ''0'' \<rparr>;
                 p2 = (set_indicator TXT_INIT_FAILED ''status-indicator error'' p1)
                        \<lparr>status_title := str_of (or_opt (error_detail data) (health_message data))\<rparr>
             in (showModbusAlert
                   (or_else (or_opt (error_detail data) (health_message data)) ALERT_INIT_FAILED) p2,
                 None)))"

text \<open>
  What happens to the Modbus region over time: a poll of the health endpoint, or a click
  on the banner's close button, which calls \<^verbatim>\<open>hideModbusAlert()\<close>.
\<close>

datatype modbus_event = Poll "modbus_health response" | CloseClick

fun modbus_step :: "(number \<Rightarrow> string) \<Rightarrow> modbus_event \<Rightarrow> modbus_dom \<Rightarrow> modbus_dom" where
  "modbus_step fmt (Poll resp) page = fst (updateModbusStatus fmt resp page)"
| "modbus_step fmt CloseClick page = hideModbusAlert page"

fun modbus_run :: "(number \<Rightarrow> string) \<Rightarrow> modbus_event list \<Rightarrow> modbus_dom \<Rightarrow> modbus_dom" where
  "modbus_run fmt [] page = page"
| "modbus_run fmt (ev # evs) page = modbus_run fmt evs (modbus_step fmt ev page)"

text \<open>
  The Modbus region when the script is loaded: the alert part is initial, the texts of
  the other nodes are whatever the markup \<open>page\<close> holds.
\<close>

definition initial_modbus :: "string list option \<Rightarrow> modbus_dom \<Rightarrow> modbus_dom" where
  "initial_modbus markup page =
     page\<lparr> modbusAlertElement := None, modbus_section := map_option (map PageNode) markup,
           created := 0 \<rparr>"

text \<open>The class tokens of a \<^verbatim>\<open>className\<close> string.\<close>

fun class_tokens :: "string \<Rightarrow> string \<Rightarrow> string list" where
  "class_tokens acc [] = (if acc = [] then [] else [acc])"
| "class_tokens acc (c # cs) =
     (if c = CHR '' '' then (if acc = [] then [] else [acc]) @ class_tokens [] cs
      else class_tokens (acc @ [c]) cs)"

definition classList :: "string \<Rightarrow> string list" where
  "classList s = class_tokens [] s"

subsection \<open>The decision tree in the words of the specification\<close>

text \<open>
  The branches of the priority-ordered tree, first match first: (1) not available;
  (2) available and not actually connected, with (a) no port, (b) server not running,
  (c) otherwise; (3) actually connected, running, and port available; (4) anything else.
\<close>

datatype health_branch =
  InitFailed | NoPort | ServerStopped | NotConnected | Running | Stopped

definition spec_branch :: "bool \<Rightarrow> bool \<Rightarrow> bool \<Rightarrow> bool \<Rightarrow> bool \<Rightarrow> health_branch" where
  "spec_branch avail conn port_ok srv_running running =
     (if avail = False then InitFailed
      else if avail = True \<and> conn = False then
        (if port_ok = False then NoPort
         else if srv_running = False then ServerStopped
         else NotConnected)
      else if conn = True \<and> running = True \<and> port_ok = True then Running
      else Stopped)"

text \<open>The indicator of each branch: its text and its class string.\<close>

fun spec_indicator :: "health_branch \<Rightarrow> string \<times> string" where
  "spec_indicator InitFailed = (TXT_INIT_FAILED, ''status-indicator error'')"
| "spec_indicator NoPort = (TXT_NO_PORT, ''status-indicator error'')"
| "spec_indicator ServerStopped = (TXT_SERVER_STOPPED, ''status-indicator stopped'')"
| "spec_indicator NotConnected = (TXT_NOT_CONNECTED, ''status-indicator error'')"
| "spec_indicator Running = (TXT_RUNNING, ''status-indicator running'')"
| "spec_indicator Stopped = (TXT_STOPPED, ''status-indicator stopped'')"

text \<open>
  The alert of each branch: \<open>Some m\<close> is a banner shown with message \<open>m\<close>, \<open>None\<close> is
  the banner hidden. A text counts when it is there and not empty: the initialisation
  failure shows \<^verbatim>\<open>error_detail\<close>, else \<^verbatim>\<open>message\<close>, else a fixed text; the missing
  port shows the prefix and \<^verbatim>\<open>port_error\<close> or a fixed text; the missing connection
  shows \<^verbatim>\<open>warning\<close> or a fixed text.
\<close>

fun spec_alert :: "health_branch \<Rightarrow> modbus_health \<Rightarrow> string option" where
  "spec_alert InitFailed d =
     Some (case error_detail d of
             Some (c # cs) \<Rightarrow> c # cs
           | _ \<Rightarrow> (case health_message d of
                     Some (c # cs) \<Rightarrow> c # cs
                   | _ \<Rightarrow> ALERT_INIT_FAILED))"
| "spec_alert NoPort d =
     Some (ALERT_PORT_PREFIX @
             (case port_error d of Some (c # cs) \<Rightarrow> c # cs | _ \<Rightarrow> ALERT_PORT_FALLBACK))"
| "spec_alert ServerStopped d = Some ALERT_SERVER_STOPPED"
| "spec_alert NotConnected d =
     Some (case warning d of Some (c # cs) \<Rightarrow> c # cs | _ \<Rightarrow> MSG_NO_RTU)"
| "spec_alert Running d = None"
| "spec_alert Stopped d = None"

text \<open>The value of \<^verbatim>\<open>status.is_running\<close>, false when there is no status object.\<close>

definition status_is_running :: "modbus_health \<Rightarrow> bool" where
  "status_is_running d = (case status d of None \<Rightarrow> False | Some st \<Rightarrow> is_running st)"

definition branch_of :: "modbus_health \<Rightarrow> health_branch" where
  "branch_of d =
     spec_branch (available d) (actually_connected d) (port_available d) (server_running d)
       (status_is_running d)"

section \<open>Modbus communication log: \<^verbatim>\<open>updateModbusLog\<close>\<close>

text \<open>
  One record of \<^verbatim>\<open>GET /api/modbus/log?limit=20\<close>. Addresses, quantities and register
  values are integers.
\<close>

record log_entry =
  event_type :: string
  slave_id :: int
  function_code :: int
  function_name :: "string option"
  address :: "int option"
  quantity :: "int option"
  register_values :: "int list option" \<comment> \<open>\<^verbatim>\<open>values\<close>\<close>
  log_error :: "string option" \<comment> \<open>\<^verbatim>\<open>error\<close>\<close>
  log_success :: bool \<comment> \<open>\<^verbatim>\<open>success\<close>\<close>
  log_timestamp :: number \<comment> \<open>\<^verbatim>\<open>timestamp\<close>\<close>

record log_body =
  logs :: "log_entry list option"

text \<open>
  One rendered entry: the class, the time, the content line (event tag, slave, function
  name, success mark) and the detail line, \<open>None\<close> when the template leaves it out.
\<close>

record log_view =
  entry_class :: string
  time_text :: string
  event_tag :: string
  slave_text :: string
  function_text :: string
  success_mark :: bool
  detail_line :: "string option"

text \<open>
  The variable \<^verbatim>\<open>detail\<close> after the four \<^verbatim>\<open>if\<close> statements: the address test is
  against \<^verbatim>\<open>null\<close> and \<^verbatim>\<open>undefined\<close>, the other three are truthiness tests, and the
  three later pieces begin with the separator.
\<close>

definition log_detail :: "log_entry \<Rightarrow> string" where
  "log_detail entry =
     (let detail = '''';
          detail = (case address entry of
                      Some a \<Rightarrow> detail @ DETAIL_ADDRESS @ show_int a
                    | None \<Rightarrow> detail);
          detail = (case quantity entry of
                      Some q \<Rightarrow> if q \<noteq> 0 then detail @ DETAIL_QUANTITY @ show_int q else detail
                    | None \<Rightarrow> detail);
          detail = (case register_values entry of
                      Some vs \<Rightarrow>
                        if length vs > 0
                        then detail @ DETAIL_VALUES @ join '', '' (map show_int vs) @ '']''
                        else detail
                    | None \<Rightarrow> detail);
          detail = (case log_error entry of
                      Some e \<Rightarrow> if e \<noteq> [] then detail @ DETAIL_ERROR @ e else detail
                    | None \<Rightarrow> detail)
      in detail)"

text \<open>The body of the \<^verbatim>\<open>forEach\<close> callback.\<close>

definition log_entry_view :: "(number \<Rightarrow> string) \<Rightarrow> log_entry \<Rightarrow> log_view" where
  "log_entry_view toLocaleTimeString entry =
     (let functionName = or_else (function_name entry) (''Function '' @ show_int (function_code entry));
          time = toLocaleTimeString (log_timestamp entry);
          detail = log_detail entry
      in \<lparr> entry_class = ''log-entry '' @ event_type entry,
            time_text = time,
            event_tag = ''['' @ toUpperCase (event_type entry) @ '']'',
            slave_text = SLAVE_WORD @ show_int (slave_id entry),
            function_text = functionName,
            success_mark = log_success entry,
            detail_line = (if detail \<noteq> [] then Some detail else None) \<rparr>)"

text \<open>\<^verbatim>\<open>updateModbusLog()\<close>.\<close>

definition updateModbusLog ::
  "(number \<Rightarrow> string) \<Rightarrow> log_body response \<Rightarrow> log_view pane \<Rightarrow> log_view pane \<times> js_error option" where
  "updateModbusLog toLocaleTimeString resp logContainer =
     (case await_json resp of
        Inl e \<Rightarrow> (logContainer, Some e)
      | Inr data \<Rightarrow>
          (case logs data of
             None \<Rightarrow> (Placeholder NO_LOGS, None)
           | Some entries \<Rightarrow>
               if length entries > 0
               then (Items (map (log_entry_view toLocaleTimeString) (rev entries)), None)
               else (Placeholder NO_LOGS, None)))"

text \<open>
  The detail line in the words of the specification: the fields that are present, in
  the order address, quantity, values, error, joined by \<^verbatim>\<open>, \<close>.
\<close>

definition spec_detail_fields :: "log_entry \<Rightarrow> string list" where
  "spec_detail_fields entry =
     (case address entry of Some a \<Rightarrow> [DETAIL_ADDRESS @ show_int a] | None \<Rightarrow> []) @
     (case quantity entry of
        Some q \<Rightarrow> if q \<noteq> 0 then [drop 2 DETAIL_QUANTITY @ show_int q] else []
      | None \<Rightarrow> []) @
     (case register_values entry of
        Some vs \<Rightarrow>
          if length vs > 0 then [drop 2 DETAIL_VALUES @ join '', '' (map show_int vs) @ '']''] else []
      | None \<Rightarrow> []) @
     (case log_error entry of
        Some e \<Rightarrow> if e \<noteq> [] then [drop 2 DETAIL_ERROR @ e] else []
      | None \<Rightarrow> [])"

definition spec_detail :: "log_entry \<Rightarrow> string" where
  "spec_detail entry = join '', '' (spec_detail_fields entry)"

section \<open>Concrete values for the worked instances\<close>

definition inv1 :: inverter_state where
  "inv1 = \<lparr> inverter_id = ''INV-001'', is_on = True,
            monitoring = \<lparr> active_power = 95 / 2, output_voltage = 380, output_current = 72,
                           power_factor = 99 / 100, efficiency = 977 / 10 \<rparr> \<rparr>"

definition inv2 :: inverter_state where
  "inv2 = \<lparr> inverter_id = ''INV-002'', is_on = False,
            monitoring = \<lparr> active_power = 0, output_voltage = 0, output_current = 0,
                           power_factor = 0, efficiency = 0 \<rparr> \<rparr>"

definition pv1 :: pv_state where
  "pv1 = \<lparr> control_mode = ''MPPT'', p_control_percent = 100,
           pv_monitoring = \<lparr> power_generation = 243 / 5, voltage = 6205 / 10,
                             current = 7833 / 100 \<rparr> \<rparr>"



definition hours30 :: "hourly_record list" where
  "hours30 = map (\<lambda>k. \<lparr>hour = digits k, accumulated_kwh = of_nat k / 2\<rparr>) [1..<31]"

definition points2 :: "time_series_point list" where
  "points2 = [\<lparr>timestamp = 1700000000, power_kw = 247 / 2\<rparr>,
              \<lparr>timestamp = 1700000002, power_kw = 124\<rparr>]"

definition chart0 :: chart where
  "chart0 = \<lparr>chart_labels = [''10:00:00''], chart_data = [120], chart_updates = [''none'']\<rparr>"

text \<open>A stand-in for the locale's time formatting: the epoch milliseconds in decimal.\<close>

definition clock :: "number \<Rightarrow> string" where
  "clock t = digits (nat \<lfloor>t\<rfloor>)"

definition status1 :: modbus_status where
  "status1 =
     \<lparr> port = Some ''COM3'', baudrate = Some 9600, num_slaves = Some 2, is_running = False,
       communication_stats = None \<rparr>"

text \<open>The scenario payload: available, not connected, no port, with a port error.\<close>

definition health_no_port :: modbus_health where
  "health_no_port =
     \<lparr> available = True, actually_connected = False, port_available = False,
       server_running = False, status = Some status1, port_error = Some ''COM3 busy'',
       warning = None, error_detail = None, health_message = None \<rparr>"

definition health_running :: modbus_health where
  "health_running =
     \<lparr> available = True, actually_connected = True, port_available = True,
       server_running = True, status = Some (status1\<lparr>is_running := True\<rparr>), port_error = None,
       warning = None, error_detail = None, health_message = None \<rparr>"

definition page0 :: modbus_dom where
  "page0 =
     \<lparr> modbusAlertElement = None, modbus_section = Some [PageNode ''h2''], created = 0,
       status_text = ''-'', status_class = ''status-indicator'', status_title = '''',
       port_text = ''-'', baudrate_text = ''-'', slaves_text = ''0'', slaves_grid = [] \<rparr>"

text \<open>A log record of a failed exchange: no address, quantity or values, only an error.\<close>

definition log_crc :: log_entry where
  "log_crc =
     \<lparr> event_type = ''error'', slave_id = 1, function_code = 3, function_name = None,
       address = None, quantity = None, register_values = None,
       log_error = Some ''CRC mismatch'', log_success = False,
       log_timestamp = 1700000000000 \<rparr>"

definition log_read :: log_entry where
  "log_read =
     \<lparr> event_type = ''request'', slave_id = 1, function_code = 3,
       function_name = Some ''Read Holding Registers'', address = Some 0, quantity = Some 2,
       register_values = Some [230, 50], log_error = None, log_success = True,
       log_timestamp = 1700000001000 \<rparr>"

text \<open>
  Two concrete values for the failed-poll scenario: a body that parses but is an error
  object with none of the snapshot's properties, and a page as an earlier successful poll
  left it.
\<close>

definition error_body :: plant_snapshot where
  "error_body =
     \<lparr> plant_id = None, total_power = None, total_capacity_mva = None, inverters = None,
       pv_generators = None \<rparr>"

definition rendered_before :: status_dom where
  "rendered_before =
     \<lparr> plant_id_text = PLANT_LABEL @ ''PLANT-001'',
       update_time_text = UPDATE_LABEL @ ''10:00:00'',
       total_power_text = ''123.46'',
       utilization_text = ''61.73'',
       reactive_power_text = ''0.00'',
       rated_capacity_text = ''0.20'',
       inverters_grid = [] \<rparr>"

definition rendered_cards :: status_dom where
  "rendered_cards = rendered_before\<lparr>inverters_grid := [card_template inv1 pv1 0]\<rparr>"

text \<open>
  The scenario payload as the specification writes it, with no status object, and
  payloads for the other branches.
\<close>

definition health_scenario :: modbus_health where
  "health_scenario =
     \<lparr> available = True, actually_connected = False, port_available = False,
       server_running = False, status = None, port_error = Some ''COM3 busy'',
       warning = None, error_detail = None, health_message = None \<rparr>"

definition health_unavailable :: "string option \<Rightarrow> string option \<Rightarrow> modbus_health" where
  "health_unavailable detail msg =
     \<lparr> available = False, actually_connected = False, port_available = False,
       server_running = False, status = None, port_error = None,
       warning = None, error_detail = detail, health_message = msg \<rparr>"

definition health_link_down :: "bool \<Rightarrow> string option \<Rightarrow> modbus_health" where
  "health_link_down running warn =
     \<lparr> available = True, actually_connected = False, port_available = True,
       server_running = running, status = Some status1, port_error = None,
       warning = warn, error_detail = None, health_message = None \<rparr>"

section \<open>The alert invariant and the alert operation of a poll\<close>

text \<open>
  The banners in the document are exactly the element the slot holds, when there is a
  container to hold it.
\<close>

definition alert_inv :: "'a alert_state_scheme \<Rightarrow> bool" where
  "alert_inv s =
     (banners s =
        (case modbusAlertElement s of
           None \<Rightarrow> []
         | Some el \<Rightarrow> (case modbus_section s of None \<Rightarrow> [] | Some children \<Rightarrow> [el])))"

text \<open>
  The one alert operation a health poll ends with, in terms of the branch table above; a
  failed fetch and a payload without its status object end in the \<^verbatim>\<open>catch\<close>.
\<close>

definition poll_alert_op :: "modbus_health response \<Rightarrow> alert_op" where
  "poll_alert_op resp =
     (case resp of
        Json d \<Rightarrow>
          if available d \<and> status d = None then Show ALERT_FETCH_ERROR
          else (case spec_alert (branch_of d) d of Some m \<Rightarrow> Show m | None \<Rightarrow> Hide)
      | FetchRejected m \<Rightarrow> Show ALERT_FETCH_ERROR
      | JsonRejected m \<Rightarrow> Show ALERT_FETCH_ERROR)"

fun event_alert_op :: "modbus_event \<Rightarrow> alert_op" where
  "event_alert_op (Poll resp) = poll_alert_op resp"
| "event_alert_op CloseClick = Hide"

text \<open>The alert part of the Modbus region.\<close>

definition alert_part :: "modbus_dom \<Rightarrow> alert_state" where
  "alert_part page =
     \<lparr> modbusAlertElement = modbusAlertElement page, modbus_section = modbus_section page,
       created = created page \<rparr>"

section \<open>Auxiliary facts\<close>



lemma digit_chars [simp]:
  "digit_char 0 = CHR ''0''" "digit_char 1 = CHR ''1''" "digit_char 2 = CHR ''2''"
  "digit_char 3 = CHR ''3''" "digit_char 4 = CHR ''4''" "digit_char 5 = CHR ''5''"
  "digit_char 6 = CHR ''6''" "digit_char 7 = CHR ''7''" "digit_char 8 = CHR ''8''"
  "digit_char 9 = CHR ''9''" "digit_char (Suc 0) = CHR ''1''"
  by (simp_all add: digit_char_def)



text \<open>
  The loop over the inverters from index \<open>i\<close> on: it adds the cards of the indices
  that \<^verbatim>\<open>pvGenerators\<close> covers and throws at the first one it does not.
\<close>

lemma forEach_inverter_Some:
  "forEach_inverter (Some pvs) i invs grid =
     (grid @ map (\<lambda>k. card_template (invs ! k) (pvs ! (i + k)) (i + k))
               [0..<min (length invs) (length pvs - i)],
      if length invs \<le> length pvs - i then None else Some TypeError)"
proof (induction invs arbitrary: i grid)
  case Nil
  show ?case by simp
next
  case (Cons inverter rest)
  show ?case
  proof (cases "i < length pvs")
    case False
    then show ?thesis by (simp add: pv_at_def createInverterCard_def)
  next
    case True
    then have m: "min (Suc (length rest)) (length pvs - i) = Suc (min (length rest) (length pvs - Suc i))"
      by simp
    have c: "(Suc (length rest) \<le> length pvs - i) = (length rest \<le> length pvs - Suc i)"
      using True by arith
    show ?thesis
      using True
      by (simp add: pv_at_def createInverterCard_def Cons.IH m c upt_conv_Cons map_Suc_upt [symmetric]
               del: upt_Suc)
  qed
qed

section \<open>The inverter cards\<close>

lemma updateInverterCards_Some:
  "updateInverterCards (Some invs) (Some pvs) ui =
     (ui\<lparr>inverters_grid :=
            map (\<lambda>k. card_template (invs ! k) (pvs ! k) k) [0..<min (length invs) (length pvs)]\<rparr>,
      if length invs \<le> length pvs then None else Some TypeError)"
  by (simp add: updateInverterCards_def forEach_inverter_Some)

text \<open>
  Claim C10. \<^verbatim>\<open>updateInverterCards\<close> reads \<^verbatim>\<open>pvGenerators[index]\<close> for every index of
  \<^verbatim>\<open>inverters\<close>. The render completes without an exception exactly when
  \<^verbatim>\<open>pv_generators\<close> is at least as long as \<^verbatim>\<open>inverters\<close>; with arrays of equal
  length every inverter gets its card; with a shorter \<^verbatim>\<open>pv_generators\<close> the cards of
  the indices it covers are already in the grid when the construction of the next one
  throws.
\<close>

theorem inverter_cards_total_iff:
  "(snd (updateInverterCards (Some invs) (Some pvs) ui) = None \<longleftrightarrow> length invs \<le> length pvs) \<and>
   (length pvs = length invs \<longrightarrow>
      updateInverterCards (Some invs) (Some pvs) ui =
        (ui\<lparr>inverters_grid := map (\<lambda>k. card_template (invs ! k) (pvs ! k) k) [0..<length invs]\<rparr>,
         None)) \<and>
   (length pvs < length invs \<longrightarrow>
      updateInverterCards (Some invs) (Some pvs) ui =
        (ui\<lparr>inverters_grid := map (\<lambda>k. card_template (invs ! k) (pvs ! k) k) [0..<length pvs]\<rparr>,
         Some TypeError))"
  by (simp add: updateInverterCards_Some min_def)

theorem inverter_cards_total_iff_witness:
  "snd (updateInverterCards (Some [inv1, inv2]) (Some [pv1]) rendered_before) = Some TypeError \<and>
   inverters_grid (fst (updateInverterCards (Some [inv1, inv2]) (Some [pv1]) rendered_before)) =
     [card_template inv1 pv1 0] \<and>
   snd (updateInverterCards (Some [inv1]) (Some [pv1]) rendered_before) = None \<and>
   inverters_grid (fst (updateInverterCards (Some [inv1]) (Some [pv1]) rendered_before)) =
     [card_template inv1 pv1 0]"
  using inverter_cards_total_iff [of "[inv1, inv2]" "[pv1]" rendered_before]
        inverter_cards_total_iff [of "[inv1]" "[pv1]" rendered_before]
  by simp

section \<open>The Status render\<close>





section \<open>A failed Status poll\<close>

text \<open>
  Claim C3 says that a poll that fails, by a network error or by a non-success payload,
  leaves the rendered state as it was. It does not hold for a payload that parses to an
  object: with an error object as body, \<^verbatim>\<open>updateUI\<close> has written the plant id (as
  \<^verbatim>\<open>undefined\<close>) and the update time before \<^verbatim>\<open>data.total_power\<close> turns out to be
  missing and the render throws into the \<^verbatim>\<open>catch\<close>. The summary numbers and the cards
  are as they were.
\<close>

theorem failed_status_poll_overwrites:
  "snd (updateStatus ''10:00:01'' (Json (Some error_body)) rendered_before) = Some TypeError \<and>
   fst (updateStatus ''10:00:01'' (Json (Some error_body)) rendered_before) =
     rendered_before \<lparr> plant_id_text := PLANT_LABEL @ ''undefined'',
                       update_time_text := UPDATE_LABEL @ ''10:00:01'' \<rparr> \<and>
   fst (updateStatus ''10:00:01'' (Json (Some error_body)) rendered_before) \<noteq> rendered_before"
  by (simp add: updateStatus_def updateUI_def error_body_def rendered_before_def)

text \<open>
  A body without \<^verbatim>\<open>total_power\<close>: the two labels are rewritten, nothing else.
\<close>

lemma no_total_power_frame:
  assumes "total_power d = None"
  shows "updateStatus now (Json (Some d)) ui =
           (ui\<lparr> plant_id_text := PLANT_LABEL @ str_of (plant_id d),
                 update_time_text := UPDATE_LABEL @ now \<rparr>, Some TypeError)"
  using assms by (simp add: updateStatus_def updateUI_def)

text \<open>
  A body whose summary is incomplete: the render throws at the first missing number, and
  \<^verbatim>\<open>updateInverterCards\<close> is not reached.
\<close>

lemma incomplete_summary_keeps_cards:
  assumes "\<not> summary_complete d"
  shows "inverters_grid (fst (updateStatus now (Json (Some d)) ui)) = inverters_grid ui \<and>
         snd (updateStatus now (Json (Some d)) ui) = Some TypeError"
  using assms
  by (auto simp: updateStatus_def updateUI_def summary_complete_def Let_def split: option.splits)

text \<open>
  Claim C3, amended. A poll that fails in transport (the fetch is rejected, or the body
  is not JSON) or whose body parses to \<^verbatim>\<open>null\<close> leaves the rendered plant summary and
  the inverter cards exactly as they were, and the error is logged. A body that parses to
  an object is rendered with no success check: when it has no \<^verbatim>\<open>total_power\<close> (an error
  object, say) the plant-id and update-time texts are rewritten from it and everything
  else, the four summary numbers and the inverter cards, stays exactly as it was; and
  whenever one of the summary numbers is missing the inverter cards stay as they were.
\<close>

theorem failed_status_poll_frame:
  "updateStatus now (FetchRejected m) ui = (ui, Some (Failure m)) \<and>
   updateStatus now (JsonRejected m) ui = (ui, Some (Failure m)) \<and>
   updateStatus now (Json None) ui = (ui, Some TypeError) \<and>
   (total_power d = None \<longrightarrow>
      updateStatus now (Json (Some d)) ui =
        (ui\<lparr> plant_id_text := PLANT_LABEL @ str_of (plant_id d),
              update_time_text := UPDATE_LABEL @ now \<rparr>, Some TypeError) \<and>
      total_power_text (fst (updateStatus now (Json (Some d)) ui)) = total_power_text ui \<and>
      utilization_text (fst (updateStatus now (Json (Some d)) ui)) = utilization_text ui \<and>
      reactive_power_text (fst (updateStatus now (Json (Some d)) ui)) = reactive_power_text ui \<and>
      rated_capacity_text (fst (updateStatus now (Json (Some d)) ui)) = rated_capacity_text ui \<and>
      inverters_grid (fst (updateStatus now (Json (Some d)) ui)) = inverters_grid ui) \<and>
   (\<not> summary_complete d \<longrightarrow>
      inverters_grid (fst (updateStatus now (Json (Some d)) ui)) = inverters_grid ui \<and>
      snd (updateStatus now (Json (Some d)) ui) = Some TypeError)"
proof -
  have transport: "updateStatus now (FetchRejected m) ui = (ui, Some (Failure m))"
    "updateStatus now (JsonRejected m) ui = (ui, Some (Failure m))"
    "updateStatus now (Json None) ui = (ui, Some TypeError)"
    by (simp_all add: updateStatus_def)
  have labels_only: "total_power d = None \<longrightarrow>
      updateStatus now (Json (Some d)) ui =
        (ui\<lparr> plant_id_text := PLANT_LABEL @ str_of (plant_id d),
              update_time_text := UPDATE_LABEL @ now \<rparr>, Some TypeError) \<and>
      total_power_text (fst (updateStatus now (Json (Some d)) ui)) = total_power_text ui \<and>
      utilization_text (fst (updateStatus now (Json (Some d)) ui)) = utilization_text ui \<and>
      reactive_power_text (fst (updateStatus now (Json (Some d)) ui)) = reactive_power_text ui \<and>
      rated_capacity_text (fst (updateStatus now (Json (Some d)) ui)) = rated_capacity_text ui \<and>
      inverters_grid (fst (updateStatus now (Json (Some d)) ui)) = inverters_grid ui"
    by (simp add: no_total_power_frame)
  have cards: "\<not> summary_complete d \<longrightarrow>
      inverters_grid (fst (updateStatus now (Json (Some d)) ui)) = inverters_grid ui \<and>
      snd (updateStatus now (Json (Some d)) ui) = Some TypeError"
    using incomplete_summary_keeps_cards [of d now ui] by blast
  from transport labels_only cards show ?thesis
    by (intro conjI)
qed

text \<open>
  The theorem at the error object, on a page that an earlier poll rendered with one card.
\<close>

theorem failed_status_poll_frame_witness:
  "updateStatus ''10:00:01'' (Json (Some error_body)) rendered_cards =
     (rendered_cards \<lparr> plant_id_text := PLANT_LABEL @ ''undefined'',
                       update_time_text := UPDATE_LABEL @ ''10:00:01'' \<rparr>, Some TypeError) \<and>
   total_power_text (fst (updateStatus ''10:00:01'' (Json (Some error_body)) rendered_cards)) =
     ''123.46'' \<and>
   inverters_grid (fst (updateStatus ''10:00:01'' (Json (Some error_body)) rendered_cards)) =
     [card_template inv1 pv1 0] \<and>
   updateStatus ''10:00:01'' (Json None) rendered_cards = (rendered_cards, Some TypeError) \<and>
   updateStatus ''10:00:01'' (FetchRejected ''Failed to fetch'') rendered_cards =
     (rendered_cards, Some (Failure ''Failed to fetch''))"
proof -
  have h: "total_power error_body = None" "\<not> summary_complete error_body"
    "plant_id error_body = None"
    by (simp_all add: error_body_def summary_complete_def)
  have r: "total_power_text rendered_cards = ''123.46''"
    "inverters_grid rendered_cards = [card_template inv1 pv1 0]"
    by (simp_all add: rendered_cards_def rendered_before_def)
  show ?thesis
    using failed_status_poll_frame [of "''10:00:01''" "''Failed to fetch''" rendered_cards error_body]
    by (simp add: h r)
qed

text \<open>
  Bodies that get further are rendered further: with the summary but without
  \<^verbatim>\<open>inverters\<close> the grid has been emptied when \<^verbatim>\<open>inverters.forEach\<close> throws.
\<close>

lemma missing_inverters_clears_grid:
  "inverters d = None \<Longrightarrow> total_power d = Some tp \<Longrightarrow> total_active_power_kw tp = Some p \<Longrightarrow>
   utilization_percent tp = Some u \<Longrightarrow> total_reactive_power_kvar tp = Some q \<Longrightarrow>
   total_capacity_mva d = Some c \<Longrightarrow>
   inverters_grid (fst (updateStatus now (Json (Some d)) ui)) = [] \<and>
   snd (updateStatus now (Json (Some d)) ui) = Some TypeError"
  by (simp add: updateStatus_def updateUI_def updateInverterCards_def)

section \<open>The contract of the command handlers\<close>

lemma toUpperCase_kinds [simp]:
  "toUpperCase ''success'' = ''SUCCESS''" "toUpperCase ''error'' = ''ERROR''"
  by (simp_all add: toUpperCase_def upper_char_def)

lemma dispatch_sent:
  "request_sent c \<Longrightarrow> dispatch c resp = try_catch (catch_prefix c) (await_json resp)"
  by (cases c)
     (auto simp: controlInverter_def controlAllInverters_def setControlMode_def
        setControlModeAll_def setPControl_def setPControlAll_def setIrradiance_def
        setTemperature_def after_read_def)

lemma dispatch_not_sent:
  "\<not> request_sent c \<Longrightarrow> dispatch c resp = try_catch (catch_prefix c) (Inl TypeError)"
  by (cases c)
     (auto simp: controlInverter_def controlAllInverters_def setControlMode_def
        setControlModeAll_def setPControl_def setPControlAll_def setIrradiance_def
        setTemperature_def after_read_def)

lemma try_catch_contained: "snd (try_catch prefix r) = None"
  by (cases r) (simp_all add: try_catch_def)

text \<open>
  Claim C4. For each of the eight handlers, once the request is sent: a parsed response
  with \<^verbatim>\<open>success\<close> true gives the success notification and exactly one call of
  \<^verbatim>\<open>updateStatus\<close>; with \<^verbatim>\<open>success\<close> false it gives an error notification with the
  server's message and no call of \<^verbatim>\<open>updateStatus\<close>; a rejected fetch or a body that is
  not JSON gives an error notification made of the handler's prefix and the failure's
  message. In every case, also when the input element is missing, no exception leaves the
  handler.
\<close>

theorem command_dispatch_contract:
  "(request_sent c \<and> success r \<longrightarrow>
      fst (dispatch c (Json r)) = [ConsoleLog (''[SUCCESS] '' @ message r), CallUpdateStatus] \<and>
      count_list (fst (dispatch c (Json r))) CallUpdateStatus = 1) \<and>
   (request_sent c \<and> \<not> success r \<longrightarrow>
      fst (dispatch c (Json r)) = [ConsoleLog (''[ERROR] '' @ message r)] \<and>
      count_list (fst (dispatch c (Json r))) CallUpdateStatus = 0) \<and>
   (request_sent c \<longrightarrow>
      fst (dispatch c (FetchRejected m)) = [ConsoleLog (''[ERROR] '' @ catch_prefix c @ m)] \<and>
      fst (dispatch c (JsonRejected m)) = [ConsoleLog (''[ERROR] '' @ catch_prefix c @ m)]) \<and>
   snd (dispatch c resp) = None"
proof -
  have escape: "snd (dispatch c resp) = None"
    by (cases "request_sent c") (simp_all add: dispatch_sent dispatch_not_sent try_catch_contained)
  show ?thesis
    by (simp add: escape dispatch_sent try_catch_def on_result_def showMessage_def)
qed

text \<open>
  The theorem at \<^verbatim>\<open>controlInverter(0, 'on')\<close> and \<^verbatim>\<open>setPControl(2)\<close>.
\<close>

theorem command_dispatch_contract_witness:
  "fst (controlInverter 0 ''on'' (Json \<lparr>success = True, message = ''ok''\<rparr>)) =
     [ConsoleLog ''[SUCCESS] ok'', CallUpdateStatus] \<and>
   fst (setPControl 2 (Some ''50'') (Json \<lparr>success = False, message = ''out of range''\<rparr>)) =
     [ConsoleLog ''[ERROR] out of range''] \<and>
   fst (setPControl 2 (Some ''50'') (FetchRejected ''Failed to fetch'')) =
     [ConsoleLog (''[ERROR] '' @ ERR_P_CONTROL @ ''Failed to fetch'')] \<and>
   snd (setPControl 2 (Some ''50'') (JsonRejected ''Unexpected token'')) = None"
  using command_dispatch_contract [of "ControlInverter 0 ''on''" "\<lparr>success = True, message = ''ok''\<rparr>"]
        command_dispatch_contract [of "SetPControl 2 (Some ''50'')"
          "\<lparr>success = False, message = ''out of range''\<rparr>" "''Failed to fetch''"
          "JsonRejected ''Unexpected token''"]
  by simp

section \<open>The hourly list\<close>

text \<open>
  Claim C6. For \<^verbatim>\<open>hourly_data\<close> of length \<open>N\<close> the hourly list shows the placeholder
  when \<open>N = 0\<close> and otherwise one row per entry of the last \<open>min N 24\<close> entries, in
  their order; so \<open>min N 24\<close> rows, and for 30 entries the rows of entries 7 to 30
  (indices 6 to 29).
\<close>

theorem hourly_tail_rows:
  "updateHourlyData (Json \<lparr>hourly_data = Some entries\<rparr>) pane =
     (if entries = [] then Placeholder NO_HOURLY_DATA
      else Items (map hourly_row (drop (length entries - min (length entries) 24) entries)), None) \<and>
   length (map hourly_row (drop (length entries - min (length entries) 24) entries)) =
     min (length entries) 24 \<and>
   (length entries = 30 \<longrightarrow>
      updateHourlyData (Json \<lparr>hourly_data = Some entries\<rparr>) pane =
        (Items (map (\<lambda>k. hourly_row (entries ! k)) [6..<30]), None))"
proof -
  have tail: "slice_last 24 entries = drop (length entries - min (length entries) 24) entries"
    by (simp add: slice_last_def min_def)
  have first: "updateHourlyData (Json \<lparr>hourly_data = Some entries\<rparr>) pane =
     (if entries = [] then Placeholder NO_HOURLY_DATA
      else Items (map hourly_row (drop (length entries - min (length entries) 24) entries)), None)"
    by (simp add: updateHourlyData_def tail)
  have thirty: "length entries = 30 \<longrightarrow>
      updateHourlyData (Json \<lparr>hourly_data = Some entries\<rparr>) pane =
        (Items (map (\<lambda>k. hourly_row (entries ! k)) [6..<30]), None)"
  proof
    assume n: "length entries = 30"
    have "drop 6 entries = map (\<lambda>k. entries ! k) [6..<30]"
      using n by (metis map_nth drop_map drop_upt add_0_right add.commute)
    then have "map hourly_row (drop 6 entries) = map (\<lambda>k. hourly_row (entries ! k)) [6..<30]"
      by (simp add: comp_def)
    with n show "updateHourlyData (Json \<lparr>hourly_data = Some entries\<rparr>) pane =
        (Items (map (\<lambda>k. hourly_row (entries ! k)) [6..<30]), None)"
      by (auto simp: updateHourlyData_def slice_last_def)
  qed
  from first thirty show ?thesis
    by simp
qed

text \<open>
  The theorem at thirty entries labelled 1 to 30, and at the empty list.
\<close>

theorem hourly_tail_rows_witness:
  "length hours30 = 30 \<and>
   updateHourlyData (Json \<lparr>hourly_data = Some hours30\<rparr>) (Placeholder NO_HOURLY_DATA) =
     (Items (map (\<lambda>k. hourly_row (hours30 ! k)) [6..<30]), None) \<and>
   item_label (hourly_row (hours30 ! 6)) = ''7'' \<and>
   item_label (hourly_row (hours30 ! 29)) = ''30'' \<and>
   updateHourlyData (Json \<lparr>hourly_data = Some []\<rparr>) (Items []) = (Placeholder NO_HOURLY_DATA, None)"
proof -
  have n: "length hours30 = 30"
    by (simp add: hours30_def)
  have first: "hour (hours30 ! 6) = digits 7" and last: "hour (hours30 ! 29) = digits 30"
    by (simp_all add: hours30_def)
  have labels: "digits 7 = ''7''" "digits 30 = ''30''"
    by (simp_all add: digits.simps)
  from n hourly_tail_rows [of hours30 "Placeholder NO_HOURLY_DATA"]
  have rows: "updateHourlyData (Json \<lparr>hourly_data = Some hours30\<rparr>) (Placeholder NO_HOURLY_DATA) =
     (Items (map (\<lambda>k. hourly_row (hours30 ! k)) [6..<30]), None)"
    by blast
  have seventh: "item_label (hourly_row (hours30 ! 6)) = ''7''"
    and thirtieth: "item_label (hourly_row (hours30 ! 29)) = ''30''"
    by (simp_all add: hourly_row_def first last labels)
  have none: "updateHourlyData (Json \<lparr>hourly_data = Some []\<rparr>) (Items []) =
      (Placeholder NO_HOURLY_DATA, None)"
    using hourly_tail_rows [of "[]" "Items []"] by simp
  from n rows seventh thirtieth none show ?thesis
    by (intro conjI)
qed

section \<open>The chart\<close>

text \<open>
  Claim C8. With a non-empty time series the chart's labels become the time strings of
  the points' timestamps (epoch seconds times 1000, formatted by the locale), its data
  the \<^verbatim>\<open>power_kw\<close> values, and it is redrawn with \<^verbatim>\<open>update('none')\<close>; with an empty
  or missing series the chart is left as it was.
\<close>

theorem chart_update:
  "(points \<noteq> [] \<longrightarrow>
      updateChart fmt (Json \<lparr>series_data = Some points\<rparr>) ch =
        (ch\<lparr> chart_labels := map (\<lambda>item. fmt (timestamp item * 1000)) points,
              chart_data := map power_kw points,
              chart_updates := chart_updates ch @ [''none''] \<rparr>, None)) \<and>
   updateChart fmt (Json \<lparr>series_data = Some []\<rparr>) ch = (ch, None) \<and>
   updateChart fmt (Json \<lparr>series_data = None\<rparr>) ch = (ch, None)"
  by (simp add: updateChart_def)

text \<open>
  The theorem at two points and at the empty series.
\<close>

theorem chart_update_witness:
  "updateChart clock (Json \<lparr>series_data = Some points2\<rparr>) chart0 =
     (\<lparr> chart_labels = [clock 1700000000000, clock 1700000002000],
         chart_data = [247 / 2, 124],
         chart_updates = [''none'', ''none''] \<rparr>, None) \<and>
   updateChart clock (Json \<lparr>series_data = Some []\<rparr>) chart0 = (chart0, None)"
  using chart_update [of points2 clock chart0]
  by (simp add: points2_def chart0_def)

section \<open>The alert banner is a singleton\<close>

lemma banners_remove:
  "banners (s\<lparr>modbus_section := remove_element el (modbus_section s)\<rparr>) =
     filter (\<lambda>e. e \<noteq> el) (banners s)"
proof (cases "modbus_section s")
  case None
  then show ?thesis by (simp add: banners_def remove_element_def)
next
  case (Some children)
  have "concat (map banner_of (filter (\<lambda>n. n \<noteq> AlertNode el) children)) =
          filter (\<lambda>e. e \<noteq> el) (concat (map banner_of children))"
  proof (induction children)
    case Nil
    show ?case by simp
  next
    case (Cons n ns)
    then show ?case by (cases n) auto
  qed
  with Some show ?thesis by (simp add: banners_def remove_element_def)
qed

lemma show_section_None:
  "(modbus_section (showModbusAlert m s) = None) = (modbus_section s = None)"
  by (simp add: showModbusAlert_def Let_def remove_element_def split: option.splits)

lemma hide_section_None:
  "(modbus_section (hideModbusAlert s) = None) = (modbus_section s = None)"
  by (simp add: hideModbusAlert_def remove_element_def split: option.splits)

lemma show_slot [simp]:
  "modbusAlertElement (showModbusAlert m s) = Some (Element (created s) m)"
  by (simp add: showModbusAlert_def Let_def split: option.splits)

lemma hide_slot [simp]: "modbusAlertElement (hideModbusAlert s) = None"
  by (simp add: hideModbusAlert_def split: option.splits)

lemma show_banners:
  assumes "alert_inv s"
  shows "banners (showModbusAlert m s) =
           (if modbus_section s = None then [] else [Element (created s) m])"
proof (cases "modbusAlertElement s")
  case None
  with assms have "banners s = []" by (simp add: alert_inv_def)
  with None show ?thesis
    by (auto simp: showModbusAlert_def Let_def banners_def split: option.splits)
next
  case (Some old)
  let ?s1 = "s\<lparr>modbus_section := remove_element old (modbus_section s)\<rparr>"
  from assms Some have "banners s = [] \<or> banners s = [old]"
    by (simp add: alert_inv_def split: option.splits)
  then have empty: "banners ?s1 = []"
    by (auto simp: banners_remove)
  show ?thesis
  proof (cases "modbus_section s")
    case None
    with Some show ?thesis
      by (simp add: showModbusAlert_def Let_def banners_def remove_element_def)
  next
    case (Some children)
    with empty \<open>modbusAlertElement s = Some old\<close> show ?thesis
      by (simp add: showModbusAlert_def Let_def banners_def remove_element_def)
  qed
qed

lemma hide_banners:
  assumes "alert_inv s"
  shows "banners (hideModbusAlert s) = []"
proof (cases "modbusAlertElement s")
  case None
  with assms show ?thesis by (simp add: alert_inv_def hideModbusAlert_def)
next
  case (Some old)
  from assms Some have "banners s = [] \<or> banners s = [old]"
    by (simp add: alert_inv_def split: option.splits)
  then have "banners (s\<lparr>modbus_section := remove_element old (modbus_section s)\<rparr>) = []"
    by (auto simp: banners_remove)
  with Some show ?thesis
    by (simp add: hideModbusAlert_def banners_def)
qed

lemma show_inv:
  assumes "alert_inv s"
  shows "alert_inv (showModbusAlert m s)"
proof (cases "modbus_section (showModbusAlert m s)")
  case None
  then have "modbus_section s = None"
    by (simp add: show_section_None)
  with None show ?thesis
    by (simp add: alert_inv_def show_banners [OF assms])
next
  case (Some children)
  then have "modbus_section s \<noteq> None"
    by (metis show_section_None option.distinct(1))
  with Some show ?thesis
    by (simp add: alert_inv_def show_banners [OF assms])
qed

lemma hide_inv: "alert_inv s \<Longrightarrow> alert_inv (hideModbusAlert s)"
  unfolding alert_inv_def [of "hideModbusAlert s"]
  by (simp add: hide_banners)

lemma initial_inv: "alert_inv (initial_alert markup)"
  by (cases markup) (simp_all add: alert_inv_def initial_alert_def banners_def)

lemma step_inv: "alert_inv s \<Longrightarrow> alert_inv (alert_step op s)"
  by (cases op) (simp_all add: show_inv hide_inv)

lemma run_inv: "alert_inv s \<Longrightarrow> alert_inv (alert_run ops s)"
  by (induction ops arbitrary: s) (simp_all add: step_inv)

lemma step_section: "(modbus_section (alert_step op s) = None) = (modbus_section s = None)"
  by (cases op) (simp_all add: show_section_None hide_section_None)

lemma run_section: "(modbus_section (alert_run ops s) = None) = (modbus_section s = None)"
  by (induction ops arbitrary: s) (simp_all add: step_section)

lemma inv_at_most_one: "alert_inv s \<Longrightarrow> length (banners s) \<le> 1"
  by (simp add: alert_inv_def split: option.splits)

text \<open>
  Claim C5. After any sequence of \<^verbatim>\<open>showModbusAlert\<close> and \<^verbatim>\<open>hideModbusAlert\<close> calls
  from the initial page there is at most one banner in the document. Two calls of
  \<^verbatim>\<open>showModbusAlert\<close> in a row leave the slot holding an element with the second
  message, and that element is the only banner of the container (the page of the
  dashboard has the \<^verbatim>\<open>.modbus-section\<close> container; without one nothing is inserted).
\<close>

theorem single_alert_banner:
  "length (banners (alert_run ops (initial_alert markup))) \<le> 1 \<and>
   banner_messages (showModbusAlert m2 (showModbusAlert m1 (alert_run ops (initial_alert markup)))) =
     (if markup = None then [] else [m2]) \<and>
   map_option element_message
     (modbusAlertElement (showModbusAlert m2 (showModbusAlert m1 (alert_run ops (initial_alert markup))))) =
     Some m2"
proof -
  let ?s = "alert_run ops (initial_alert markup)"
  have inv: "alert_inv ?s"
    by (simp add: run_inv initial_inv)
  have sec: "(modbus_section (showModbusAlert m1 ?s) = None) = (markup = None)"
    by (simp add: show_section_None run_section initial_alert_def)
  have "banners (showModbusAlert m2 (showModbusAlert m1 ?s)) =
          (if markup = None then [] else [Element (created (showModbusAlert m1 ?s)) m2])"
    using show_banners [OF show_inv [OF inv, of m1], of m2] sec by simp
  then show ?thesis
    using inv_at_most_one [OF inv] by (simp add: banner_messages_def)
qed

text \<open>
  The theorem at a page whose container holds one heading.
\<close>

theorem single_alert_banner_witness:
  "length (banners (alert_run [Show ''first'', Hide, Show ''second''] (initial_alert (Some [''h2''])))) \<le> 1 \<and>
   banner_messages
     (showModbusAlert ''second'' (showModbusAlert ''first'' (initial_alert (Some [''h2''])))) =
     [''second'']"
  using single_alert_banner [of "[Show ''first'', Hide, Show ''second'']" "Some [''h2'']"]
        single_alert_banner [of "[]" "Some [''h2'']" "''second''" "''first''"]
  by simp

section \<open>The health decision tree\<close>

lemma alert_part_show: "alert_part (showModbusAlert m page) = showModbusAlert m (alert_part page)"
  by (simp add: alert_part_def showModbusAlert_def Let_def split: option.splits)

lemma alert_part_hide: "alert_part (hideModbusAlert page) = hideModbusAlert (alert_part page)"
  by (simp add: alert_part_def hideModbusAlert_def split: option.splits)

lemma alert_part_banners: "banners (alert_part page) = banners page"
  by (simp add: alert_part_def banners_def)

lemma alert_part_slot: "modbusAlertElement (alert_part page) = modbusAlertElement page"
  by (simp add: alert_part_def)

lemma alert_part_other [simp]:
  "alert_part (set_indicator txt cls page) = alert_part page"
  "alert_part (updateSlaveStats fmt stats page) = alert_part page"
  "alert_part (page\<lparr>status_title := t\<rparr>) = alert_part page"
  "alert_part (page\<lparr>port_text := a, baudrate_text := b, slaves_text := c\<rparr>) = alert_part page"
  by (simp_all add: alert_part_def set_indicator_def updateSlaveStats_def)

text \<open>
  The \<^verbatim>\<open>||\<close> chains of the script pick the first text that is there and not empty, as
  the alert table says.
\<close>

lemma spec_alert_chains:
  "spec_alert b d =
     (case b of
        InitFailed \<Rightarrow> Some (or_else (or_opt (error_detail d) (health_message d)) ALERT_INIT_FAILED)
      | NoPort \<Rightarrow> Some (ALERT_PORT_PREFIX @ or_else (port_error d) ALERT_PORT_FALLBACK)
      | ServerStopped \<Rightarrow> Some ALERT_SERVER_STOPPED
      | NotConnected \<Rightarrow> Some (or_else (warning d) MSG_NO_RTU)
      | Running \<Rightarrow> None
      | Stopped \<Rightarrow> None)"
  by (cases b) (auto simp: or_else_def or_opt_def split: option.splits list.splits)

lemma poll_alert_part:
  "alert_part (fst (updateModbusStatus fmt resp page)) =
     alert_step (poll_alert_op resp) (alert_part page)"
proof (cases resp)
  case (FetchRejected m)
  then show ?thesis
    by (simp add: updateModbusStatus_def poll_alert_op_def alert_part_show)
next
  case (JsonRejected m)
  then show ?thesis
    by (simp add: updateModbusStatus_def poll_alert_op_def alert_part_show)
next
  case (Json d)
  show ?thesis
  proof (cases "status d")
    case None
    with Json show ?thesis
      by (simp add: updateModbusStatus_def poll_alert_op_def alert_part_show alert_part_hide
            branch_of_def spec_branch_def Let_def spec_alert_chains del: spec_alert.simps)
  next
    case (Some st)
    with Json show ?thesis
      by (simp add: updateModbusStatus_def poll_alert_op_def alert_part_show alert_part_hide
            branch_of_def spec_branch_def status_is_running_def Let_def spec_alert_chains
            del: spec_alert.simps)
  qed
qed

lemma modbus_step_alert_part:
  "alert_part (modbus_step fmt ev page) = alert_step (event_alert_op ev) (alert_part page)"
  by (cases ev) (simp_all add: poll_alert_part alert_part_hide)

lemma modbus_run_alert_part:
  "alert_part (modbus_run fmt evs page) = alert_run (map event_alert_op evs) (alert_part page)"
  by (induction evs arbitrary: page) (simp_all add: modbus_step_alert_part)

lemma initial_modbus_alert_part: "alert_part (initial_modbus markup page) = initial_alert markup"
  by (simp add: alert_part_def initial_modbus_def initial_alert_def)

lemma reachable_inv: "alert_inv (alert_part (modbus_run fmt evs (initial_modbus markup page)))"
  by (simp add: modbus_run_alert_part initial_modbus_alert_part run_inv initial_inv)

lemma reachable_section:
  "(modbus_section (alert_part (modbus_run fmt evs (initial_modbus markup page))) = None) =
     (markup = None)"
  by (simp add: modbus_run_alert_part initial_modbus_alert_part run_section initial_alert_def)

text \<open>What one poll does to the banners of a reachable page.\<close>

lemma poll_banner_messages:
  "banner_messages (fst (updateModbusStatus fmt resp (modbus_run fmt evs (initial_modbus markup page)))) =
     (case poll_alert_op resp of
        Show m \<Rightarrow> if markup = None then [] else [m]
      | Hide \<Rightarrow> [])"
proof -
  let ?p = "modbus_run fmt evs (initial_modbus markup page)"
  have "banners (fst (updateModbusStatus fmt resp ?p)) =
          banners (alert_step (poll_alert_op resp) (alert_part ?p))"
    using alert_part_banners [of "fst (updateModbusStatus fmt resp ?p)"]
    by (simp add: poll_alert_part)
  then show ?thesis
    using show_banners [OF reachable_inv [of fmt evs markup page]]
          hide_banners [OF reachable_inv [of fmt evs markup page]]
          reachable_section [of fmt evs markup page]
    by (cases "poll_alert_op resp") (simp_all add: banner_messages_def)
qed

lemma poll_slot_message:
  "map_option element_message
     (modbusAlertElement (fst (updateModbusStatus fmt resp page))) =
     (case poll_alert_op resp of Show m \<Rightarrow> Some m | Hide \<Rightarrow> None)"
proof -
  have "modbusAlertElement (fst (updateModbusStatus fmt resp page)) =
          modbusAlertElement (alert_step (poll_alert_op resp) (alert_part page))"
    using alert_part_slot [of "fst (updateModbusStatus fmt resp page)"]
    by (simp add: poll_alert_part)
  then show ?thesis
    by (cases "poll_alert_op resp") simp_all
qed

lemma show_keeps_texts [simp]:
  "status_text (showModbusAlert m page) = status_text page"
  "status_class (showModbusAlert m page) = status_class page"
  by (simp_all add: showModbusAlert_def Let_def split: option.splits)

lemma hide_keeps_texts [simp]:
  "status_text (hideModbusAlert page) = status_text page"
  "status_class (hideModbusAlert page) = status_class page"
  by (simp_all add: hideModbusAlert_def split: option.splits)

lemma poll_indicator:
  assumes "available d \<longrightarrow> status d \<noteq> None"
  shows "(status_text (fst (updateModbusStatus fmt (Json d) page)),
          status_class (fst (updateModbusStatus fmt (Json d) page))) = spec_indicator (branch_of d)
         \<and> snd (updateModbusStatus fmt (Json d) page) = None"
proof (cases "status d")
  case None
  with assms have "\<not> available d" by simp
  then show ?thesis
    by (simp add: updateModbusStatus_def branch_of_def spec_branch_def set_indicator_def Let_def)
next
  case (Some st)
  then show ?thesis
    by (simp add: updateModbusStatus_def branch_of_def spec_branch_def status_is_running_def
          set_indicator_def updateSlaveStats_def Let_def)
qed

lemma poll_alert_op_parsed:
  "available d \<longrightarrow> status d \<noteq> None \<Longrightarrow>
   poll_alert_op (Json d) = (case spec_alert (branch_of d) d of Some m \<Rightarrow> Show m | None \<Rightarrow> Hide)"
  by (auto simp: poll_alert_op_def)

lemma classList_error: "''error'' \<in> set (classList ''status-indicator error'')"
  by (simp add: classList_def)

lemma poll_without_status:
  assumes "available d" and "status d = None"
  shows "updateModbusStatus fmt (Json d) page = (showModbusAlert ALERT_FETCH_ERROR page, Some TypeError)"
  using assms by (simp add: updateModbusStatus_def)

text \<open>
  Claim C1 names the payload \<^verbatim>\<open>{available: true, actually_connected: false,
  port_available: false, port_error: "COM3 busy"}\<close>, which has no status object. There
  the script throws at \<^verbatim>\<open>status.port\<close> before it reaches the tree: the indicator keeps
  the class it had, and the banner carries the fixed text of the \<^verbatim>\<open>catch\<close>, not the
  port error.
\<close>

theorem health_scenario_without_status:
  "updateModbusStatus clock (Json health_scenario) page0 =
     (showModbusAlert ALERT_FETCH_ERROR page0, Some TypeError) \<and>
   status_class (fst (updateModbusStatus clock (Json health_scenario) page0)) = ''status-indicator'' \<and>
   ''error'' \<notin> set (classList (status_class (fst (updateModbusStatus clock (Json health_scenario) page0)))) \<and>
   banner_messages (fst (updateModbusStatus clock (Json health_scenario) page0)) = [ALERT_FETCH_ERROR] \<and>
   banner_messages (fst (updateModbusStatus clock (Json health_scenario) page0)) \<noteq>
     [ALERT_PORT_PREFIX @ ''COM3 busy'']"
proof -
  have r: "updateModbusStatus clock (Json health_scenario) page0 =
      (showModbusAlert ALERT_FETCH_ERROR page0, Some TypeError)"
    by (simp add: updateModbusStatus_def health_scenario_def)
  have "status_class (fst (updateModbusStatus clock (Json health_scenario) page0)) =
      status_class page0"
    by (simp add: r)
  then have cls: "status_class (fst (updateModbusStatus clock (Json health_scenario) page0)) =
      ''status-indicator''"
    by (simp add: page0_def)
  have no_class: "''error'' \<notin>
      set (classList (status_class (fst (updateModbusStatus clock (Json health_scenario) page0))))"
    by (simp add: cls classList_def)
  have "banner_messages (showModbusAlert ALERT_FETCH_ERROR page0) = [ALERT_FETCH_ERROR]"
    by (simp add: showModbusAlert_def banner_messages_def banners_def page0_def Let_def)
  then have shown: "banner_messages (fst (updateModbusStatus clock (Json health_scenario) page0)) =
      [ALERT_FETCH_ERROR]"
    by (simp add: r)
  have "ALERT_FETCH_ERROR \<noteq> ALERT_PORT_PREFIX @ ''COM3 busy''"
    by (simp add: ALERT_FETCH_ERROR_def ALERT_PORT_PREFIX_def)
  then have differ: "banner_messages (fst (updateModbusStatus clock (Json health_scenario) page0)) \<noteq>
      [ALERT_PORT_PREFIX @ ''COM3 busy'']"
    by (simp add: shown)
  from r cls no_class shown differ show ?thesis
    by (intro conjI)
qed

text \<open>
  Claim C1, amended. For every health payload that carries its status object, or is not
  available, and every page the pollers can have produced, \<^verbatim>\<open>updateModbusStatus\<close>
  completes, and the indicator's text and class and the alert are those of the branch
  that the decision tree of the specification selects, first match first, from
  \<^verbatim>\<open>available\<close>, \<^verbatim>\<open>actually_connected\<close>, \<^verbatim>\<open>port_available\<close>, \<^verbatim>\<open>server_running\<close> and
  \<^verbatim>\<open>status.is_running\<close>: the banner is shown with the branch's message, or hidden. A
  payload that is available and has no status object is not rendered by the tree: the
  read of \<^verbatim>\<open>status.port\<close> throws, the indicator stays as it was and the banner shows the
  fixed text of the \<^verbatim>\<open>catch\<close>. For a payload with a status object that is available,
  not connected, without port and with port error \<^verbatim>\<open>COM3 busy\<close> the indicator has the
  class \<^verbatim>\<open>error\<close> and the alert text is the port-failure prefix followed by
  \<^verbatim>\<open>COM3 busy\<close>.
\<close>

theorem health_decision_tree:
  "(available d \<and> status d = None \<longrightarrow>
      updateModbusStatus fmt (Json d) (modbus_run fmt evs (initial_modbus markup page)) =
        (showModbusAlert ALERT_FETCH_ERROR (modbus_run fmt evs (initial_modbus markup page)),
         Some TypeError) \<and>
      status_text (fst (updateModbusStatus fmt (Json d) (modbus_run fmt evs (initial_modbus markup page)))) =
        status_text (modbus_run fmt evs (initial_modbus markup page)) \<and>
      status_class (fst (updateModbusStatus fmt (Json d) (modbus_run fmt evs (initial_modbus markup page)))) =
        status_class (modbus_run fmt evs (initial_modbus markup page)) \<and>
      banner_messages
        (fst (updateModbusStatus fmt (Json d) (modbus_run fmt evs (initial_modbus markup page)))) =
        (if markup = None then [] else [ALERT_FETCH_ERROR])) \<and>
   (\<not> (available d \<and> status d = None) \<longrightarrow>
      snd (updateModbusStatus fmt (Json d) (modbus_run fmt evs (initial_modbus markup page))) = None \<and>
      (status_text (fst (updateModbusStatus fmt (Json d) (modbus_run fmt evs (initial_modbus markup page)))),
       status_class (fst (updateModbusStatus fmt (Json d) (modbus_run fmt evs (initial_modbus markup page))))) =
        spec_indicator
          (spec_branch (available d) (actually_connected d) (port_available d) (server_running d)
             (status_is_running d)) \<and>
      map_option element_message
        (modbusAlertElement
           (fst (updateModbusStatus fmt (Json d) (modbus_run fmt evs (initial_modbus markup page))))) =
        spec_alert
          (spec_branch (available d) (actually_connected d) (port_available d) (server_running d)
             (status_is_running d)) d \<and>
      banner_messages
        (fst (updateModbusStatus fmt (Json d) (modbus_run fmt evs (initial_modbus markup page)))) =
        (case spec_alert
                (spec_branch (available d) (actually_connected d) (port_available d)
                   (server_running d) (status_is_running d)) d of
           Some m \<Rightarrow> if markup = None then [] else [m]
         | None \<Rightarrow> [])) \<and>
   (status d \<noteq> None \<and> available d \<and> \<not> actually_connected d \<and> \<not> port_available d \<and>
    port_error d = Some ''COM3 busy'' \<longrightarrow>
      ''error'' \<in> set (classList
         (status_class
            (fst (updateModbusStatus fmt (Json d) (modbus_run fmt evs (initial_modbus markup page)))))) \<and>
      map_option element_message
        (modbusAlertElement
           (fst (updateModbusStatus fmt (Json d) (modbus_run fmt evs (initial_modbus markup page))))) =
        Some (ALERT_PORT_PREFIX @ ''COM3 busy''))"
proof -
  let ?page = "modbus_run fmt evs (initial_modbus markup page)"
  let ?r = "fst (updateModbusStatus fmt (Json d) ?page)"
  let ?b = "spec_branch (available d) (actually_connected d) (port_available d) (server_running d)
              (status_is_running d)"
  have b: "branch_of d = ?b"
    by (simp add: branch_of_def)
  have thrown: "available d \<and> status d = None \<longrightarrow>
      updateModbusStatus fmt (Json d) ?page = (showModbusAlert ALERT_FETCH_ERROR ?page, Some TypeError) \<and>
      status_text ?r = status_text ?page \<and> status_class ?r = status_class ?page \<and>
      banner_messages ?r = (if markup = None then [] else [ALERT_FETCH_ERROR])"
  proof
    assume h: "available d \<and> status d = None"
    then have r: "updateModbusStatus fmt (Json d) ?page =
        (showModbusAlert ALERT_FETCH_ERROR ?page, Some TypeError)"
      by (simp add: poll_without_status)
    have "poll_alert_op (Json d) = Show ALERT_FETCH_ERROR"
      using h by (simp add: poll_alert_op_def)
    then have "banner_messages ?r = (if markup = None then [] else [ALERT_FETCH_ERROR])"
      using poll_banner_messages [of fmt "Json d" evs markup page] by simp
    with r show "updateModbusStatus fmt (Json d) ?page =
        (showModbusAlert ALERT_FETCH_ERROR ?page, Some TypeError) \<and>
      status_text ?r = status_text ?page \<and> status_class ?r = status_class ?page \<and>
      banner_messages ?r = (if markup = None then [] else [ALERT_FETCH_ERROR])"
      by simp
  qed
  have tree: "\<not> (available d \<and> status d = None) \<longrightarrow>
      snd (updateModbusStatus fmt (Json d) ?page) = None \<and>
      (status_text ?r, status_class ?r) = spec_indicator ?b \<and>
      map_option element_message (modbusAlertElement ?r) = spec_alert ?b d \<and>
      banner_messages ?r =
        (case spec_alert ?b d of Some m \<Rightarrow> if markup = None then [] else [m] | None \<Rightarrow> [])"
  proof
    assume "\<not> (available d \<and> status d = None)"
    then have h: "available d \<longrightarrow> status d \<noteq> None"
      by simp
    have no_error: "snd (updateModbusStatus fmt (Json d) ?page) = None"
      and indicator: "(status_text ?r, status_class ?r) = spec_indicator ?b"
      using poll_indicator [OF h, of fmt ?page] by (simp_all add: b)
    have slot: "map_option element_message (modbusAlertElement ?r) = spec_alert ?b d"
      using poll_slot_message [of fmt "Json d" ?page] poll_alert_op_parsed [OF h]
      by (cases "spec_alert ?b d") (simp_all add: b)
    have shown: "banner_messages ?r =
        (case spec_alert ?b d of Some m \<Rightarrow> if markup = None then [] else [m] | None \<Rightarrow> [])"
      using poll_banner_messages [of fmt "Json d" evs markup page] poll_alert_op_parsed [OF h]
      by (cases "spec_alert ?b d") (simp_all add: b)
    from no_error indicator slot shown
    show "snd (updateModbusStatus fmt (Json d) ?page) = None \<and>
      (status_text ?r, status_class ?r) = spec_indicator ?b \<and>
      map_option element_message (modbusAlertElement ?r) = spec_alert ?b d \<and>
      banner_messages ?r =
        (case spec_alert ?b d of Some m \<Rightarrow> if markup = None then [] else [m] | None \<Rightarrow> [])"
      by (intro conjI)
  qed
  have scenario: "status d \<noteq> None \<and> available d \<and> \<not> actually_connected d \<and> \<not> port_available d \<and>
      port_error d = Some ''COM3 busy'' \<longrightarrow>
        ''error'' \<in> set (classList (status_class ?r)) \<and>
        map_option element_message (modbusAlertElement ?r) = Some (ALERT_PORT_PREFIX @ ''COM3 busy'')"
  proof
    assume h: "status d \<noteq> None \<and> available d \<and> \<not> actually_connected d \<and> \<not> port_available d \<and>
      port_error d = Some ''COM3 busy''"
    then have "?b = NoPort"
      by (simp add: spec_branch_def)
    moreover from h tree have "(status_text ?r, status_class ?r) = spec_indicator ?b"
      and "map_option element_message (modbusAlertElement ?r) = spec_alert ?b d"
      by simp_all
    ultimately show "''error'' \<in> set (classList (status_class ?r)) \<and>
        map_option element_message (modbusAlertElement ?r) = Some (ALERT_PORT_PREFIX @ ''COM3 busy'')"
      using h by (simp add: classList_error)
  qed
  from thrown tree scenario show ?thesis
    by (intro conjI)
qed

text \<open>
  The theorem on a fresh page: at the scenario payload with a status object and without
  one, at an unavailable payload with an error detail, with a message only and with
  neither, at a stopped server, at a link that is down with and without a warning, and at
  a running server.
\<close>

theorem health_decision_tree_witness:
  "status_text (fst (updateModbusStatus clock (Json health_no_port) page0)) = TXT_NO_PORT \<and>
   status_class (fst (updateModbusStatus clock (Json health_no_port) page0)) = ''status-indicator error'' \<and>
   ''error'' \<in> set (classList (status_class (fst (updateModbusStatus clock (Json health_no_port) page0)))) \<and>
   banner_messages (fst (updateModbusStatus clock (Json health_no_port) page0)) =
     [ALERT_PORT_PREFIX @ ''COM3 busy''] \<and>
   banner_messages (fst (updateModbusStatus clock (Json health_scenario) page0)) = [ALERT_FETCH_ERROR] \<and>
   banner_messages
     (fst (updateModbusStatus clock (Json (health_unavailable (Some ''no driver'') (Some ''failed''))) page0)) =
     [''no driver''] \<and>
   banner_messages
     (fst (updateModbusStatus clock (Json (health_unavailable None (Some ''failed''))) page0)) =
     [''failed''] \<and>
   banner_messages
     (fst (updateModbusStatus clock (Json (health_unavailable (Some []) None)) page0)) =
     [ALERT_INIT_FAILED] \<and>
   status_text (fst (updateModbusStatus clock (Json (health_unavailable None None)) page0)) =
     TXT_INIT_FAILED \<and>
   banner_messages (fst (updateModbusStatus clock (Json (health_link_down False None)) page0)) =
     [ALERT_SERVER_STOPPED] \<and>
   status_text (fst (updateModbusStatus clock (Json (health_link_down False None)) page0)) =
     TXT_SERVER_STOPPED \<and>
   banner_messages (fst (updateModbusStatus clock (Json (health_link_down True (Some ''timeout''))) page0)) =
     [''timeout''] \<and>
   banner_messages (fst (updateModbusStatus clock (Json (health_link_down True None)) page0)) =
     [MSG_NO_RTU] \<and>
   status_text (fst (updateModbusStatus clock (Json (health_link_down True None)) page0)) =
     TXT_NOT_CONNECTED \<and>
   banner_messages (fst (updateModbusStatus clock (Json health_running) page0)) = [] \<and>
   (status_text (fst (updateModbusStatus clock (Json health_running) page0)),
    status_class (fst (updateModbusStatus clock (Json health_running) page0))) =
     (TXT_RUNNING, ''status-indicator running'')"
proof -
  have start: "initial_modbus (Some [''h2'']) page0 = page0"
    by (simp add: initial_modbus_def page0_def)
  note t = health_decision_tree [of _ clock "[]" "Some [''h2'']" page0,
      unfolded modbus_run.simps start, simplified]
  have no_port: "status_text (fst (updateModbusStatus clock (Json health_no_port) page0)) = TXT_NO_PORT"
    "status_class (fst (updateModbusStatus clock (Json health_no_port) page0)) = ''status-indicator error''"
    "''error'' \<in> set (classList (status_class (fst (updateModbusStatus clock (Json health_no_port) page0))))"
    "banner_messages (fst (updateModbusStatus clock (Json health_no_port) page0)) =
       [ALERT_PORT_PREFIX @ ''COM3 busy'']"
    using t [of health_no_port]
    by (simp_all add: health_no_port_def spec_branch_def status_is_running_def status1_def
          classList_error)
  have bare: "banner_messages (fst (updateModbusStatus clock (Json health_scenario) page0)) =
      [ALERT_FETCH_ERROR]"
  proof -
    have "available health_scenario \<and> status health_scenario = None"
      by (simp add: health_scenario_def)
    with t [of health_scenario] show ?thesis
      by blast
  qed
  have unavailable:
    "banner_messages
       (fst (updateModbusStatus clock (Json (health_unavailable (Some ''no driver'') (Some ''failed''))) page0)) =
       [''no driver'']"
    "banner_messages
       (fst (updateModbusStatus clock (Json (health_unavailable None (Some ''failed''))) page0)) =
       [''failed'']"
    "banner_messages
       (fst (updateModbusStatus clock (Json (health_unavailable (Some []) None)) page0)) =
       [ALERT_INIT_FAILED]"
    "status_text (fst (updateModbusStatus clock (Json (health_unavailable None None)) page0)) =
       TXT_INIT_FAILED"
    using t [of "health_unavailable (Some ''no driver'') (Some ''failed'')"]
          t [of "health_unavailable None (Some ''failed'')"]
          t [of "health_unavailable (Some []) None"]
          t [of "health_unavailable None None"]
    by (simp_all add: health_unavailable_def spec_branch_def)
  have down:
    "banner_messages (fst (updateModbusStatus clock (Json (health_link_down False None)) page0)) =
       [ALERT_SERVER_STOPPED]"
    "status_text (fst (updateModbusStatus clock (Json (health_link_down False None)) page0)) =
       TXT_SERVER_STOPPED"
    "banner_messages (fst (updateModbusStatus clock (Json (health_link_down True (Some ''timeout''))) page0)) =
       [''timeout'']"
    "banner_messages (fst (updateModbusStatus clock (Json (health_link_down True None)) page0)) =
       [MSG_NO_RTU]"
    "status_text (fst (updateModbusStatus clock (Json (health_link_down True None)) page0)) =
       TXT_NOT_CONNECTED"
    using t [of "health_link_down False None"] t [of "health_link_down True (Some ''timeout'')"]
          t [of "health_link_down True None"]
    by (simp_all add: health_link_down_def spec_branch_def)
  have running:
    "banner_messages (fst (updateModbusStatus clock (Json health_running) page0)) = []"
    "(status_text (fst (updateModbusStatus clock (Json health_running) page0)),
      status_class (fst (updateModbusStatus clock (Json health_running) page0))) =
       (TXT_RUNNING, ''status-indicator running'')"
    using t [of health_running]
    by (simp_all add: health_running_def spec_branch_def status_is_running_def status1_def)
  from no_port bare unavailable down running show ?thesis
    by (intro conjI)
qed

section \<open>A failed health poll\<close>

lemma modbus_run_snoc:
  "modbus_run fmt (evs @ [ev]) page = modbus_step fmt ev (modbus_run fmt evs page)"
  by (induction evs arbitrary: page) simp_all

text \<open>
  Claim C9. When the health fetch is rejected or its body is not JSON, the \<^verbatim>\<open>catch\<close>
  of \<^verbatim>\<open>updateModbusStatus\<close> calls \<^verbatim>\<open>showModbusAlert\<close> with one fixed message: the slot
  then holds a banner with that message and it is the only banner of the container,
  whatever was shown before; it goes when a later poll finds the link connected. The
  other pollers leave their region as it was on the same failure.
\<close>

theorem failed_health_poll_shows_alert:
  "fst (updateModbusStatus fmt (FetchRejected e) page) = showModbusAlert ALERT_FETCH_ERROR page \<and>
   fst (updateModbusStatus fmt (JsonRejected e) page) = showModbusAlert ALERT_FETCH_ERROR page \<and>
   map_option element_message
     (modbusAlertElement (fst (updateModbusStatus fmt (FetchRejected e) page))) =
     Some ALERT_FETCH_ERROR \<and>
   banner_messages
     (fst (updateModbusStatus fmt (FetchRejected e) (modbus_run fmt evs (initial_modbus markup page)))) =
     (if markup = None then [] else [ALERT_FETCH_ERROR]) \<and>
   banner_messages
     (fst (updateModbusStatus fmt (JsonRejected e) (modbus_run fmt evs (initial_modbus markup page)))) =
     (if markup = None then [] else [ALERT_FETCH_ERROR]) \<and>
   (available d \<and> actually_connected d \<and> status d \<noteq> None \<longrightarrow>
      banner_messages
        (fst (updateModbusStatus fmt (Json d)
           (fst (updateModbusStatus fmt (FetchRejected e)
              (modbus_run fmt evs (initial_modbus markup page)))))) = []) \<and>
   fst (updateStatus now (FetchRejected e) ui) = ui \<and>
   fst (updateChart fmt (FetchRejected e) ch) = ch \<and>
   fst (updateHourlyData (FetchRejected e) hourly) = hourly \<and>
   fst (updateModbusLog fmt (FetchRejected e) logs_pane) = logs_pane"
proof -
  let ?page = "modbus_run fmt evs (initial_modbus markup page)"
  have later: "available d \<and> actually_connected d \<and> status d \<noteq> None \<longrightarrow>
      banner_messages
        (fst (updateModbusStatus fmt (Json d) (fst (updateModbusStatus fmt (FetchRejected e) ?page)))) = []"
  proof
    assume h: "available d \<and> actually_connected d \<and> status d \<noteq> None"
    then have "poll_alert_op (Json d) = Hide"
      by (simp add: poll_alert_op_def branch_of_def spec_branch_def)
    then show "banner_messages
        (fst (updateModbusStatus fmt (Json d) (fst (updateModbusStatus fmt (FetchRejected e) ?page)))) = []"
      using poll_banner_messages [of fmt "Json d" "evs @ [Poll (FetchRejected e)]" markup page]
      by (simp add: modbus_run_snoc)
  qed
  have calls: "fst (updateModbusStatus fmt (FetchRejected e) page) = showModbusAlert ALERT_FETCH_ERROR page"
    "fst (updateModbusStatus fmt (JsonRejected e) page) = showModbusAlert ALERT_FETCH_ERROR page"
    by (simp_all add: updateModbusStatus_def)
  have slot: "map_option element_message
     (modbusAlertElement (fst (updateModbusStatus fmt (FetchRejected e) page))) = Some ALERT_FETCH_ERROR"
    using poll_slot_message [of fmt "FetchRejected e" page] by (simp add: poll_alert_op_def)
  have shown: "banner_messages (fst (updateModbusStatus fmt (FetchRejected e) ?page)) =
       (if markup = None then [] else [ALERT_FETCH_ERROR])"
    "banner_messages (fst (updateModbusStatus fmt (JsonRejected e) ?page)) =
       (if markup = None then [] else [ALERT_FETCH_ERROR])"
    using poll_banner_messages [of fmt "FetchRejected e" evs markup page]
          poll_banner_messages [of fmt "JsonRejected e" evs markup page]
    by (simp_all add: poll_alert_op_def)
  have others: "fst (updateStatus now (FetchRejected e) ui) = ui"
    "fst (updateChart fmt (FetchRejected e) ch) = ch"
    "fst (updateHourlyData (FetchRejected e) hourly) = hourly"
    "fst (updateModbusLog fmt (FetchRejected e) logs_pane) = logs_pane"
    by (simp_all add: updateStatus_def updateChart_def updateHourlyData_def updateModbusLog_def)
  from calls slot shown later others show ?thesis
    by (intro conjI)
qed

text \<open>
  The theorem on a fresh page, on a page that already shows the port alert, and followed
  by a poll that finds the server running.
\<close>

theorem failed_health_poll_shows_alert_witness:
  "banner_messages (fst (updateModbusStatus clock (FetchRejected ''Failed to fetch'') page0)) =
     [ALERT_FETCH_ERROR] \<and>
   banner_messages
     (fst (updateModbusStatus clock (FetchRejected ''Failed to fetch'')
        (fst (updateModbusStatus clock (Json health_no_port) page0)))) = [ALERT_FETCH_ERROR] \<and>
   banner_messages
     (fst (updateModbusStatus clock (Json health_running)
        (fst (updateModbusStatus clock (FetchRejected ''Failed to fetch'') page0)))) = []"
proof -
  have start: "initial_modbus (Some [''h2'']) page0 = page0"
    by (simp add: initial_modbus_def page0_def)
  have h: "available health_running" "actually_connected health_running"
    "status health_running \<noteq> None"
    by (simp_all add: health_running_def)
  show ?thesis
    using failed_health_poll_shows_alert [of clock "''Failed to fetch''" page0 "[]" "Some [''h2'']"
            health_running]
          failed_health_poll_shows_alert [of clock "''Failed to fetch''" page0
            "[Poll (Json health_no_port)]" "Some [''h2'']"]
    by (simp add: start h)
qed

section \<open>The log pane\<close>

text \<open>
  A batch is rendered newest first, one entry per record, and the empty batch gives the
  placeholder.
\<close>

lemma log_render_reversed:
  "updateModbusLog fmt (Json \<lparr>logs = Some entries\<rparr>) pane =
     (if entries = [] then Placeholder NO_LOGS
      else Items (map (log_entry_view fmt) (rev entries)), None)"
  by (simp add: updateModbusLog_def)

text \<open>
  The detail line is the join of the present fields, except that without an address it
  begins with the separator; it is left out exactly when no field is present.
\<close>

lemma log_detail_join:
  "log_detail entry =
     (if address entry = None \<and> spec_detail_fields entry \<noteq> [] then '', '' @ spec_detail entry
      else spec_detail entry)"
proof -
  define Q where "Q = drop 2 DETAIL_QUANTITY"
  define V where "V = drop 2 DETAIL_VALUES"
  define E where "E = drop 2 DETAIL_ERROR"
  have q: "DETAIL_QUANTITY = '', '' @ Q"
    by (simp add: Q_def DETAIL_QUANTITY_def)
  have v: "DETAIL_VALUES = '', '' @ V"
    by (simp add: V_def DETAIL_VALUES_def)
  have e: "DETAIL_ERROR = '', '' @ E"
    by (simp add: E_def DETAIL_ERROR_def)
  show ?thesis
    unfolding log_detail_def spec_detail_fields_def spec_detail_def Q_def [symmetric] V_def [symmetric]
      E_def [symmetric]
    by (simp add: q v e Let_def split: option.splits)
qed

lemma log_detail_omitted:
  "detail_line (log_entry_view fmt entry) = None \<longleftrightarrow> spec_detail_fields entry = []"
proof -
  have "DETAIL_ADDRESS \<noteq> []"
    by (simp add: DETAIL_ADDRESS_def)
  then show ?thesis
    by (auto simp: log_entry_view_def log_detail_join spec_detail_def spec_detail_fields_def Let_def
          split: option.splits)
qed

text \<open>
  Claim C2 says that successive fields of the detail line are separated by \<^verbatim>\<open>, \<close>. For
  a record with an error and no address the script renders the separator in front of the
  only field.
\<close>

theorem log_detail_leading_separator:
  "detail_line (log_entry_view clock log_crc) = Some ('', '' @ drop 2 DETAIL_ERROR @ ''CRC mismatch'') \<and>
   spec_detail log_crc = drop 2 DETAIL_ERROR @ ''CRC mismatch'' \<and>
   detail_line (log_entry_view clock log_crc) \<noteq> Some (spec_detail log_crc)"
  by (simp add: log_entry_view_def log_detail_def spec_detail_def spec_detail_fields_def log_crc_def
        DETAIL_ERROR_def)

lemma log_detail_with_address:
  "detail_line (log_entry_view clock log_read) = Some (spec_detail log_read) \<and>
   spec_detail log_read =
     DETAIL_ADDRESS @ ''0, '' @ drop 2 DETAIL_QUANTITY @ ''2, '' @ drop 2 DETAIL_VALUES @ ''230, 50]''"
  by (simp add: log_entry_view_def log_detail_join spec_detail_def spec_detail_fields_def log_read_def
        show_int_def digits.simps DETAIL_ADDRESS_def)


end
